theory Spec2Isabelle
  imports Main "HOL-Library.Word"
begin

section \<open>Problem constants and the shared region\<close>

text \<open>
  The macros of probConst.h (NUMPLAYERS, NUMGOALIES, NUMTEAMPLAYERS, NUMTEAMGOALIES) are
  plain integer constants used by both programs; they are parameters of the model.
\<close>

record config =
  NUMPLAYERS :: int
  NUMGOALIES :: int
  NUMTEAMPLAYERS :: int
  NUMTEAMGOALIES :: int

text \<open>The states an entity writes into its slot of the state arrays.\<close>

datatype status =
    ARRIVING
  | WAITING_TEAM
  | FORMING_TEAM
  | WAITING_START_1
  | WAITING_START_2
  | PLAYING_1
  | PLAYING_2
  | LATE

text \<open>\<open>sh->fSt.st\<close>: one slot per player and per goalie.\<close>

record STAT =
  playerStat :: "status list"
  goalieStat :: "status list"

text \<open>\<open>sh->fSt\<close>: the state arrays and the counters. The counters are C ints that count
  processes, far from the range where an int wraps, so they are integers here.\<close>

record FULL_STAT =
  st :: STAT
  playersArrived :: int
  playersFree :: int
  goaliesArrived :: int
  goaliesFree :: int
  teamId :: int

text \<open>The semaphores of the set, named by the fields of \<open>SHARED_DATA\<close> that index them.\<close>

datatype sem =
    mutex
  | playersWaitTeam
  | goaliesWaitTeam
  | playersWaitReferee
  | playersWaitEnd
  | refereeWaitTeams
  | playerRegistered
  | playing

section \<open>One process as a sequential program\<close>

text \<open>The two kinds of process.\<close>

datatype kind = Player | Goalie

text \<open>
  A process is run on a world: the shared region as the process sees it, the events it has
  produced so far (semaphore operations, writes of its state slot, calls of saveState), its
  local variable \<open>ret\<close>, and whether it has stopped: after a semaphore call that returns -1
  it leaves through \<open>exit (EXIT_FAILURE)\<close>; at a store outside the mapped region it is
  killed by the system.
  \<open>semFail n\<close> tells whether the semaphore call made after \<open>n\<close> events returns -1.

  The programs index the state arrays with no test of the index. An index outside the
  array is outside what C defines; what the machine does is to access what lies at that
  distance from the array, which the layout of the shared region (probDataStruct.h) decides.
  The world says what happens: \<open>strayStore k i v s\<close> is the region after the store of \<open>v\<close> at
  index \<open>i\<close> of the state array of kind \<open>k\<close> when \<open>i\<close> is outside that array, or \<open>None\<close> when
  the address is outside the mapped region; \<open>strayLoad k i s\<close> is what a load finds at such
  an index (the programs load from an index only after a store at the same index).
\<close>

datatype fault = SemFailure sem | Killed

datatype event =
    SemDown sem
  | SemUp sem
  | SetPlayerStat int status
  | SetGoalieStat int status
  | SaveState

record world =
  shm :: FULL_STAT
  trace :: "event list"
  ret :: int
  halted :: "fault option"
  semFail :: "nat \<Rightarrow> bool"
  strayStore :: "kind \<Rightarrow> int \<Rightarrow> status \<Rightarrow> FULL_STAT \<Rightarrow> FULL_STAT option"
  strayLoad :: "kind \<Rightarrow> int \<Rightarrow> FULL_STAT \<Rightarrow> status"

text \<open>\<open>if (semDown (semgid, s) == -1) { perror (...); exit (EXIT_FAILURE); }\<close>\<close>

definition semDown :: "sem \<Rightarrow> world \<Rightarrow> world" where
  "semDown s w =
     (if halted w \<noteq> None then w
      else if semFail w (length (trace w)) then w\<lparr>halted := Some (SemFailure s)\<rparr>
      else w\<lparr>trace := trace w @ [SemDown s]\<rparr>)"

text \<open>\<open>if (semUp (semgid, s) == -1) { perror (...); exit (EXIT_FAILURE); }\<close>\<close>

definition semUp :: "sem \<Rightarrow> world \<Rightarrow> world" where
  "semUp s w =
     (if halted w \<noteq> None then w
      else if semFail w (length (trace w)) then w\<lparr>halted := Some (SemFailure s)\<rparr>
      else w\<lparr>trace := trace w @ [SemUp s]\<rparr>)"

text \<open>An assignment to a counter of \<open>sh->fSt\<close>.\<close>

definition assign :: "(FULL_STAT \<Rightarrow> FULL_STAT) \<Rightarrow> world \<Rightarrow> world" where
  "assign f w = (if halted w \<noteq> None then w else w\<lparr>shm := f (shm w)\<rparr>)"

text \<open>An assignment to the local variable \<open>ret\<close>.\<close>

definition setRet :: "(world \<Rightarrow> int) \<Rightarrow> world \<Rightarrow> world" where
  "setRet f w = (if halted w \<noteq> None then w else w\<lparr>ret := f w\<rparr>)"

text \<open>\<open>sh->fSt.st.playerStat[id] = v\<close>\<close>

definition setPlayerStat :: "int \<Rightarrow> status \<Rightarrow> world \<Rightarrow> world" where
  "setPlayerStat i v w =
     (if halted w \<noteq> None then w
      else if 0 \<le> i \<and> i < int (length (playerStat (st (shm w))))
      then w\<lparr>shm := (shm w)\<lparr>st := (st (shm w))\<lparr>playerStat :=
                 (playerStat (st (shm w)))[nat i := v]\<rparr>\<rparr>,
             trace := trace w @ [SetPlayerStat i v]\<rparr>
      else
        (case strayStore w Player i v (shm w) of
           None \<Rightarrow> w\<lparr>halted := Some Killed\<rparr>
         | Some s \<Rightarrow> w\<lparr>shm := s, trace := trace w @ [SetPlayerStat i v]\<rparr>))"

text \<open>\<open>sh->fSt.st.goalieStat[id] = v\<close>\<close>

definition setGoalieStat :: "int \<Rightarrow> status \<Rightarrow> world \<Rightarrow> world" where
  "setGoalieStat i v w =
     (if halted w \<noteq> None then w
      else if 0 \<le> i \<and> i < int (length (goalieStat (st (shm w))))
      then w\<lparr>shm := (shm w)\<lparr>st := (st (shm w))\<lparr>goalieStat :=
                 (goalieStat (st (shm w)))[nat i := v]\<rparr>\<rparr>,
             trace := trace w @ [SetGoalieStat i v]\<rparr>
      else
        (case strayStore w Goalie i v (shm w) of
           None \<Rightarrow> w\<lparr>halted := Some Killed\<rparr>
         | Some s \<Rightarrow> w\<lparr>shm := s, trace := trace w @ [SetGoalieStat i v]\<rparr>))"

text \<open>\<open>sh->fSt.st.playerStat[id] == v\<close> and \<open>sh->fSt.st.goalieStat[id] == v\<close>\<close>

definition playerStatIs :: "int \<Rightarrow> status \<Rightarrow> world \<Rightarrow> bool" where
  "playerStatIs i v w =
     (if 0 \<le> i \<and> i < int (length (playerStat (st (shm w))))
      then playerStat (st (shm w)) ! nat i = v
      else strayLoad w Player i (shm w) = v)"

definition goalieStatIs :: "int \<Rightarrow> status \<Rightarrow> world \<Rightarrow> bool" where
  "goalieStatIs i v w =
     (if 0 \<le> i \<and> i < int (length (goalieStat (st (shm w))))
      then goalieStat (st (shm w)) ! nat i = v
      else strayLoad w Goalie i (shm w) = v)"

text \<open>\<open>saveState (nFic, &sh->fSt)\<close>: the logging collaborator, seen as an event.\<close>

definition saveState :: "world \<Rightarrow> world" where
  "saveState w = (if halted w \<noteq> None then w else w\<lparr>trace := trace w @ [SaveState]\<rparr>)"

text \<open>Statements in sequence.\<close>

definition seq :: "(world \<Rightarrow> world) list \<Rightarrow> world \<Rightarrow> world" where
  "seq cs w = fold (\<lambda>c. c) cs w"

text \<open>\<open>for (int i = i0; i < n; i++) body\<close>, for a body that does not read \<open>i\<close>.\<close>

function for_lt :: "int \<Rightarrow> int \<Rightarrow> (world \<Rightarrow> world) \<Rightarrow> world \<Rightarrow> world" where
  "for_lt i n body w = (if i < n then for_lt (i + 1) n body (body w) else w)"
  by pat_completeness auto
termination
  by (relation "measure (\<lambda>(i, n, body, w). nat (n - i))") auto

declare for_lt.simps [simp del]

subsection \<open>The player\<close>

definition player_arrive :: "int \<Rightarrow> world \<Rightarrow> world" where
  "player_arrive i =
     seq [semDown mutex,
          setPlayerStat i ARRIVING,
          saveState,
          semUp mutex]"

text \<open>
  \<open>seen\<close> is the value of \<open>sh->fSt.teamId\<close> at the moment a released recruit reads it
  (\<open>ret = sh->fSt.teamId\<close>): the read is made outside the critical region, after the process
  was blocked, so it is what the other processes have left there.
\<close>

definition playerConstituteTeam :: "config \<Rightarrow> int \<Rightarrow> int \<Rightarrow> world \<Rightarrow> world" where
  "playerConstituteTeam cfg i seen =
     seq [setRet (\<lambda>w. 0),
          semDown mutex,
          assign (\<lambda>s. s\<lparr>playersArrived := playersArrived s + 1\<rparr>),
          assign (\<lambda>s. s\<lparr>playersFree := playersFree s + 1\<rparr>),
          (\<lambda>w. if playersArrived (shm w) \<le> 2 * NUMTEAMPLAYERS cfg then
                 (if playersFree (shm w) \<ge> NUMTEAMPLAYERS cfg \<and>
                     goaliesFree (shm w) \<ge> NUMTEAMGOALIES cfg then
                    seq [setPlayerStat i FORMING_TEAM,
                         for_lt 0 (NUMTEAMPLAYERS cfg - 1)
                           (seq [semUp playersWaitTeam, semDown playerRegistered]),
                         assign (\<lambda>s. s\<lparr>playersFree := playersFree s - NUMTEAMPLAYERS cfg\<rparr>),
                         semUp goaliesWaitTeam,
                         semDown playerRegistered,
                         assign (\<lambda>s. s\<lparr>goaliesFree := goaliesFree s - NUMTEAMGOALIES cfg\<rparr>),
                         setRet (\<lambda>w. teamId (shm w)),
                         assign (\<lambda>s. s\<lparr>teamId := teamId s + 1\<rparr>),
                         saveState] w
                  else
                    seq [setPlayerStat i WAITING_TEAM,
                         saveState] w)
               else
                 seq [setRet (\<lambda>w. 0),
                      setPlayerStat i LATE,
                      assign (\<lambda>s. s\<lparr>playersFree := playersFree s - 1\<rparr>),
                      saveState] w),
          semUp mutex,
          (\<lambda>w. if playerStatIs i WAITING_TEAM w then
                 seq [semDown playersWaitTeam,
                      setRet (\<lambda>w. seen),
                      semUp playerRegistered] w
               else if playerStatIs i FORMING_TEAM w then
                 semUp refereeWaitTeams w
               else w)]"

definition player_waitReferee :: "int \<Rightarrow> int \<Rightarrow> world \<Rightarrow> world" where
  "player_waitReferee i team =
     seq [semDown mutex,
          (\<lambda>w. if team = 1 then setPlayerStat i WAITING_START_1 w
               else if team = 2 then setPlayerStat i WAITING_START_2 w
               else w),
          saveState,
          semUp mutex,
          semDown playersWaitReferee]"

definition player_playUntilEnd :: "int \<Rightarrow> int \<Rightarrow> world \<Rightarrow> world" where
  "player_playUntilEnd i team =
     seq [semDown mutex,
          (\<lambda>w. if team = 1 then setPlayerStat i PLAYING_1 w
               else if team = 2 then setPlayerStat i PLAYING_2 w
               else w),
          semUp playing,
          saveState,
          semUp mutex,
          semDown playersWaitEnd]"

subsection \<open>The goalie\<close>

definition goalie_arrive :: "int \<Rightarrow> world \<Rightarrow> world" where
  "goalie_arrive i =
     seq [semDown mutex,
          setGoalieStat i ARRIVING,
          saveState,
          semUp mutex]"

definition goalieConstituteTeam :: "config \<Rightarrow> int \<Rightarrow> int \<Rightarrow> world \<Rightarrow> world" where
  "goalieConstituteTeam cfg i seen =
     seq [setRet (\<lambda>w. 0),
          semDown mutex,
          assign (\<lambda>s. s\<lparr>goaliesFree := goaliesFree s + 1\<rparr>),
          assign (\<lambda>s. s\<lparr>goaliesArrived := goaliesArrived s + 1\<rparr>),
          (\<lambda>w. if goaliesArrived (shm w) \<le> 2 * NUMTEAMGOALIES cfg then
                 (if playersFree (shm w) \<ge> NUMTEAMPLAYERS cfg \<and>
                     goaliesFree (shm w) \<ge> NUMTEAMGOALIES cfg then
                    seq [setGoalieStat i FORMING_TEAM,
                         assign (\<lambda>s. s\<lparr>goaliesFree := goaliesFree s - NUMTEAMGOALIES cfg\<rparr>),
                         for_lt 0 (NUMTEAMPLAYERS cfg) (semUp playersWaitTeam),
                         for_lt 0 (NUMTEAMPLAYERS cfg) (semDown playerRegistered),
                         assign (\<lambda>s. s\<lparr>playersFree := playersFree s - NUMTEAMPLAYERS cfg\<rparr>),
                         setRet (\<lambda>w. teamId (shm w)),
                         assign (\<lambda>s. s\<lparr>teamId := teamId s + 1\<rparr>),
                         saveState] w
                  else
                    seq [setGoalieStat i WAITING_TEAM,
                         saveState] w)
               else
                 seq [setRet (\<lambda>w. 0),
                      setGoalieStat i LATE,
                      assign (\<lambda>s. s\<lparr>goaliesFree := goaliesFree s - 1\<rparr>),
                      saveState] w),
          semUp mutex,
          (\<lambda>w. if goalieStatIs i FORMING_TEAM w then
                 semUp refereeWaitTeams w
               else if goalieStatIs i WAITING_TEAM w then
                 seq [semDown goaliesWaitTeam,
                      setRet (\<lambda>w. seen),
                      semUp playerRegistered] w
               else w)]"

definition goalie_waitReferee :: "int \<Rightarrow> int \<Rightarrow> world \<Rightarrow> world" where
  "goalie_waitReferee i team =
     seq [semDown mutex,
          (\<lambda>w. if team = 1 then setGoalieStat i WAITING_START_1 w
               else if team = 2 then setGoalieStat i WAITING_START_2 w
               else w),
          saveState,
          semUp mutex,
          semDown playersWaitReferee]"

definition goalie_playUntilEnd :: "int \<Rightarrow> int \<Rightarrow> world \<Rightarrow> world" where
  "goalie_playUntilEnd i team =
     seq [semDown mutex,
          semUp playing,
          (\<lambda>w. if team = 1 then setGoalieStat i PLAYING_1 w
               else if team = 2 then setGoalieStat i PLAYING_2 w
               else w),
          saveState,
          semUp mutex,
          semDown playersWaitEnd]"

subsection \<open>The main programs\<close>

text \<open>
  \<open>n = (unsigned int) strtol (argv[1], &tinp, 0)\<close> with \<open>int n\<close>: the long that strtol
  returns is cut to 32 bits and read back as a signed int.
\<close>

definition id_of_long :: "int \<Rightarrow> int" where
  "id_of_long v = sint (word_of_int v :: 32 word)"

datatype exit_status = EXIT_SUCCESS | EXIT_FAILURE

text \<open>
  \<open>if ((team = playerConstituteTeam (n)) != 0) { waitReferee (n, team); playUntilEnd (n, team); }\<close>
  and the same lines of the goalie.
\<close>

definition player_life :: "config \<Rightarrow> int \<Rightarrow> int \<Rightarrow> world \<Rightarrow> world" where
  "player_life cfg n seen =
     seq [playerConstituteTeam cfg n seen,
          (\<lambda>w. if ret w \<noteq> 0
                then seq [player_waitReferee n (ret w),
                          player_playUntilEnd n (ret w)] w
                else w)]"

definition goalie_life :: "config \<Rightarrow> int \<Rightarrow> int \<Rightarrow> world \<Rightarrow> world" where
  "goalie_life cfg n seen =
     seq [goalieConstituteTeam cfg n seen,
          (\<lambda>w. if ret w \<noteq> 0
                then seq [goalie_waitReferee n (ret w),
                          goalie_playUntilEnd n (ret w)] w
                else w)]"

text \<open>How a process ends: main returns, or exit is called, with a status; or the process
  is killed by the system.\<close>

datatype ending = Ended exit_status | Crashed

text \<open>
  The main program of the player. \<open>argc\<close> is the number of arguments; \<open>parsed\<close> is what
  \<open>strtol (argv[1], &tinp, 0)\<close> gives: the number read and the rest of the string, from
  \<open>tinp\<close> on; \<open>attached\<close> tells whether ftok, semConnect, shmemConnect and shmemAttach all
  succeed; \<open>detached\<close> whether shmemDettach does. The world is that of the shared region
  once attached; a run that returns before the life cycle leaves it as it is.
\<close>

definition player_main ::
  "config \<Rightarrow> nat \<Rightarrow> int \<times> string \<Rightarrow> bool \<Rightarrow> bool \<Rightarrow> int \<Rightarrow> world \<Rightarrow> ending \<times> world" where
  "player_main cfg argc parsed attached detached seen w =
     (if argc \<noteq> 4 then (Ended EXIT_FAILURE, w)
      else
        let n = id_of_long (fst parsed) in
        if snd parsed \<noteq> [] \<or> n \<ge> NUMPLAYERS cfg then (Ended EXIT_FAILURE, w)
        else if \<not> attached then (Ended EXIT_FAILURE, w)
        else
          let w' = seq [player_arrive n, player_life cfg n seen] w
          in case halted w' of
               Some Killed \<Rightarrow> (Crashed, w')
             | Some (SemFailure s) \<Rightarrow> (Ended EXIT_FAILURE, w')
             | None \<Rightarrow> if \<not> detached then (Ended EXIT_FAILURE, w')
                       else (Ended EXIT_SUCCESS, w'))"

definition goalie_main ::
  "config \<Rightarrow> nat \<Rightarrow> int \<times> string \<Rightarrow> bool \<Rightarrow> bool \<Rightarrow> int \<Rightarrow> world \<Rightarrow> ending \<times> world" where
  "goalie_main cfg argc parsed attached detached seen w =
     (if argc \<noteq> 4 then (Ended EXIT_FAILURE, w)
      else
        let n = id_of_long (fst parsed) in
        if snd parsed \<noteq> [] \<or> n \<ge> NUMGOALIES cfg then (Ended EXIT_FAILURE, w)
        else if \<not> attached then (Ended EXIT_FAILURE, w)
        else
          let w' = seq [goalie_arrive n, goalie_life cfg n seen] w
          in case halted w' of
               Some Killed \<Rightarrow> (Crashed, w')
             | Some (SemFailure s) \<Rightarrow> (Ended EXIT_FAILURE, w')
             | None \<Rightarrow> if \<not> detached then (Ended EXIT_FAILURE, w')
                       else (Ended EXIT_SUCCESS, w'))"

section \<open>Properties of the events of a process\<close>

text \<open>A world on which the process has not exited and no semaphore call fails.\<close>

definition ok :: "world \<Rightarrow> bool" where
  "ok w = (halted w = None \<and> (\<forall>n. \<not> semFail w n))"

text \<open>The events a statement adds to the trace.\<close>

definition events_of :: "(world \<Rightarrow> world) \<Rightarrow> world \<Rightarrow> event list" where
  "events_of c w = drop (length (trace w)) (trace (c w))"

text \<open>The branch that playerConstituteTeam and goalieConstituteTeam take, in terms of the
  shared region found on entering the critical region (the tests are made after the
  process has counted itself).\<close>

definition player_late :: "config \<Rightarrow> FULL_STAT \<Rightarrow> bool" where
  "player_late cfg s = (\<not> playersArrived s + 1 \<le> 2 * NUMTEAMPLAYERS cfg)"

definition player_captain :: "config \<Rightarrow> FULL_STAT \<Rightarrow> bool" where
  "player_captain cfg s =
     (playersArrived s + 1 \<le> 2 * NUMTEAMPLAYERS cfg \<and>
      playersFree s + 1 \<ge> NUMTEAMPLAYERS cfg \<and> goaliesFree s \<ge> NUMTEAMGOALIES cfg)"

definition goalie_late :: "config \<Rightarrow> FULL_STAT \<Rightarrow> bool" where
  "goalie_late cfg s = (\<not> goaliesArrived s + 1 \<le> 2 * NUMTEAMGOALIES cfg)"

definition goalie_captain :: "config \<Rightarrow> FULL_STAT \<Rightarrow> bool" where
  "goalie_captain cfg s =
     (goaliesArrived s + 1 \<le> 2 * NUMTEAMGOALIES cfg \<and>
      playersFree s \<ge> NUMTEAMPLAYERS cfg \<and> goaliesFree s + 1 \<ge> NUMTEAMGOALIES cfg)"

text \<open>The slot of a process is inside its state array.\<close>

definition player_slot :: "int \<Rightarrow> world \<Rightarrow> bool" where
  "player_slot i w = (0 \<le> i \<and> i < int (length (playerStat (st (shm w)))))"

definition goalie_slot :: "int \<Rightarrow> world \<Rightarrow> bool" where
  "goalie_slot i w = (0 \<le> i \<and> i < int (length (goalieStat (st (shm w)))))"

text \<open>
  The registration handshake of a captain is strictly sequential when every release (an up
  of playersWaitTeam or goaliesWaitTeam) is made with no acknowledgement pending, every
  wait on playerRegistered takes the one pending acknowledgement, and none is pending at
  the end.
\<close>

fun handshake :: "bool \<Rightarrow> event list \<Rightarrow> bool" where
  "handshake pending [] = (\<not> pending)"
| "handshake pending (e # es) =
     (if e = SemUp playersWaitTeam \<or> e = SemUp goaliesWaitTeam
      then \<not> pending \<and> handshake True es
      else if e = SemDown playerRegistered
      then pending \<and> handshake False es
      else handshake pending es)"

text \<open>The semaphores, other than mutex, on which a down is made while the process is
  inside the critical region (between a down and the next up of mutex).\<close>

fun waits_inside :: "bool \<Rightarrow> event list \<Rightarrow> sem list" where
  "waits_inside held [] = []"
| "waits_inside held (SemDown s # es) =
     (if s = mutex then waits_inside True es
      else (if held then [s] else []) @ waits_inside held es)"
| "waits_inside held (SemUp s # es) =
     (if s = mutex then waits_inside False es else waits_inside held es)"
| "waits_inside held (e # es) = waits_inside held es"

text \<open>\<open>a\<close> occurs, and before any \<open>b\<close>.\<close>

fun precedes :: "event \<Rightarrow> event \<Rightarrow> event list \<Rightarrow> bool" where
  "precedes a b [] = False"
| "precedes a b (e # es) = (if e = a then True else if e = b then False else precedes a b es)"

text \<open>The counters of the shared region are the same in two states.\<close>

definition same_counters :: "FULL_STAT \<Rightarrow> FULL_STAT \<Rightarrow> bool" where
  "same_counters s s' =
     (playersArrived s' = playersArrived s \<and> playersFree s' = playersFree s \<and>
      goaliesArrived s' = goaliesArrived s \<and> goaliesFree s' = goaliesFree s \<and>
      teamId s' = teamId s)"

text \<open>Two state arrays differ at most in slot \<open>i\<close>.\<close>

definition same_but :: "int \<Rightarrow> status list \<Rightarrow> status list \<Rightarrow> bool" where
  "same_but i xs ys =
     (length ys = length xs \<and> (\<forall>k < length xs. int k \<noteq> i \<longrightarrow> ys ! k = xs ! k))"

text \<open>What a player with slot \<open>i\<close> (a goalie with slot \<open>i\<close>) may change in the shared
  region when it only writes its own state: nothing but slot \<open>i\<close> of its state array.\<close>

definition frame_player :: "int \<Rightarrow> FULL_STAT \<Rightarrow> FULL_STAT \<Rightarrow> bool" where
  "frame_player i s s' =
     (same_counters s s' \<and> same_but i (playerStat (st s)) (playerStat (st s')) \<and>
      goalieStat (st s') = goalieStat (st s))"

definition frame_goalie :: "int \<Rightarrow> FULL_STAT \<Rightarrow> FULL_STAT \<Rightarrow> bool" where
  "frame_goalie i s s' =
     (same_counters s s' \<and> same_but i (goalieStat (st s)) (goalieStat (st s')) \<and>
      playerStat (st s') = playerStat (st s))"

text \<open>The state written by waitReferee and by playUntilEnd for team 1 and for team 2.\<close>

definition waiting_start :: "int \<Rightarrow> status" where
  "waiting_start team = (if team = 1 then WAITING_START_1 else WAITING_START_2)"

definition playing_in :: "int \<Rightarrow> status" where
  "playing_in team = (if team = 1 then PLAYING_1 else PLAYING_2)"

text \<open>A configuration and a shared region to run the programs on: teams of two players
  and one goalie, nobody arrived yet.\<close>

definition small_config :: config where
  "small_config = \<lparr>NUMPLAYERS = 5, NUMGOALIES = 3, NUMTEAMPLAYERS = 2, NUMTEAMGOALIES = 1\<rparr>"

definition fresh_region :: FULL_STAT where
  "fresh_region =
     \<lparr>st = \<lparr>playerStat = replicate 5 ARRIVING, goalieStat = replicate 3 ARRIVING\<rparr>,
      playersArrived = 0, playersFree = 0, goaliesArrived = 0, goaliesFree = 0, teamId = 1\<rparr>"

text \<open>One player and one goalie have arrived and wait for a team.\<close>

definition one_each_region :: FULL_STAT where
  "one_each_region =
     \<lparr>st = \<lparr>playerStat = [WAITING_TEAM, ARRIVING, ARRIVING, ARRIVING, ARRIVING],
             goalieStat = [WAITING_TEAM, ARRIVING, ARRIVING]\<rparr>,
      playersArrived = 1, playersFree = 1, goaliesArrived = 1, goaliesFree = 1, teamId = 1\<rparr>"

text \<open>Two players have arrived and wait for a team; no goalie has arrived.\<close>

definition two_players_region :: FULL_STAT where
  "two_players_region =
     \<lparr>st = \<lparr>playerStat = [WAITING_TEAM, WAITING_TEAM, ARRIVING, ARRIVING, ARRIVING],
             goalieStat = [ARRIVING, ARRIVING, ARRIVING]\<rparr>,
      playersArrived = 2, playersFree = 2, goaliesArrived = 0, goaliesFree = 0, teamId = 1\<rparr>"

text \<open>Four players and two goalies have arrived: both teams are complete.\<close>

definition full_region :: FULL_STAT where
  "full_region =
     \<lparr>st = \<lparr>playerStat = [PLAYING_1, PLAYING_1, PLAYING_2, PLAYING_2, ARRIVING],
             goalieStat = [PLAYING_1, PLAYING_2, ARRIVING]\<rparr>,
      playersArrived = 4, playersFree = 0, goaliesArrived = 2, goaliesFree = 0, teamId = 3\<rparr>"

text \<open>A configuration with two goalies in a team, and a region where one player and two
  goalies have arrived and wait for a team.\<close>

definition two_goalies_config :: config where
  "two_goalies_config =
     \<lparr>NUMPLAYERS = 5, NUMGOALIES = 5, NUMTEAMPLAYERS = 2, NUMTEAMGOALIES = 2\<rparr>"

definition two_goalies_region :: FULL_STAT where
  "two_goalies_region =
     \<lparr>st = \<lparr>playerStat = [WAITING_TEAM, ARRIVING, ARRIVING, ARRIVING, ARRIVING],
             goalieStat = [WAITING_TEAM, WAITING_TEAM, ARRIVING, ARRIVING, ARRIVING]\<rparr>,
      playersArrived = 1, playersFree = 1, goaliesArrived = 2, goaliesFree = 2, teamId = 1\<rparr>"

text \<open>
  A layout for the examples. The state array of the goalies lies right after that of the
  players, in the order in which \<open>sh->fSt.st\<close> names them: index \<open>i\<close> of goalieStat, for
  \<open>i\<close> from minus the number of players to -1, is the slot of playerStat at that distance
  from its end, and an index of playerStat from the number of players on is a slot of
  goalieStat. Any other index is taken to be outside the mapped region.
\<close>

definition adjacent_store :: "kind \<Rightarrow> int \<Rightarrow> status \<Rightarrow> FULL_STAT \<Rightarrow> FULL_STAT option" where
  "adjacent_store k i v s =
     (case k of
        Player \<Rightarrow>
          (let j = i - int (length (playerStat (st s)))
           in if 0 \<le> j \<and> j < int (length (goalieStat (st s)))
              then Some (s\<lparr>st := (st s)\<lparr>goalieStat := (goalieStat (st s))[nat j := v]\<rparr>\<rparr>)
              else None)
      | Goalie \<Rightarrow>
          (let j = int (length (playerStat (st s))) + i
           in if 0 \<le> j \<and> i < 0
              then Some (s\<lparr>st := (st s)\<lparr>playerStat := (playerStat (st s))[nat j := v]\<rparr>\<rparr>)
              else None))"

definition adjacent_load :: "kind \<Rightarrow> int \<Rightarrow> FULL_STAT \<Rightarrow> status" where
  "adjacent_load k i s =
     (case k of
        Player \<Rightarrow>
          (let j = i - int (length (playerStat (st s)))
           in if 0 \<le> j \<and> j < int (length (goalieStat (st s)))
              then goalieStat (st s) ! nat j else ARRIVING)
      | Goalie \<Rightarrow>
          (let j = int (length (playerStat (st s))) + i
           in if 0 \<le> j \<and> i < 0 then playerStat (st s) ! nat j else ARRIVING))"

text \<open>The world of a process that starts on a region: no semaphore call fails, and the
  layout is the one above.\<close>

definition world_of :: "FULL_STAT \<Rightarrow> world" where
  "world_of s = \<lparr>shm = s, trace = [], ret = 0, halted = None, semFail = (\<lambda>n. False),
                  strayStore = adjacent_store, strayLoad = adjacent_load\<rparr>"

text \<open>The run of a statement in which the semaphore call made after \<open>n\<close> further events
  returns -1, and no other: the process stops at that call, and the world shows the shared
  region as it is at that moment.\<close>

definition stopped_after :: "nat \<Rightarrow> (world \<Rightarrow> world) \<Rightarrow> world \<Rightarrow> world" where
  "stopped_after n c w = c (w\<lparr>semFail := (\<lambda>k. k = length (trace w) + n)\<rparr>)"


section \<open>The processes running together\<close>

text \<open>
  The players and the goalies run as separate processes on the same shared region and the
  same semaphore set. A process is at a program point, which names the semaphore operation
  (or the read of shared memory made outside the critical region) that it makes next.
  A step of a process is that operation together with the statements that follow it up to
  the next program point. The statements grouped with an operation are inside the critical
  region, but for the tests of the local variable \<open>team\<close> made in main.
\<close>

datatype pc =
    ArriveDown
  | ArriveUp
  | CtDown
  | CapUp
  | CapDown
  | CapGoalieUp
  | CapGoalieDown
  | CtUp
  | CtTest
  | RecDown
  | RecRead
  | RecUp
  | CapRef
  | WrDown
  | WrUp
  | WrWait
  | PeDown
  | PeSignal
  | PeUp
  | PeWait
  | Exit

datatype semop = Wait sem | Signal sem | Internal

text \<open>The local state of a process: its kind, its identification \<open>n\<close>, its program point,
  the loop variable \<open>i\<close>, the local variable \<open>ret\<close> (\<open>team\<close> in main), and whether it is
  still running (it is not after \<open>exit (EXIT_FAILURE)\<close>).\<close>

record proc =
  kind :: kind
  ident :: int
  pc :: pc
  idx :: int
  team_of :: int
  alive :: bool

definition put_player :: "int \<Rightarrow> status \<Rightarrow> FULL_STAT \<Rightarrow> FULL_STAT" where
  "put_player i v s = s\<lparr>st := (st s)\<lparr>playerStat := (playerStat (st s))[nat i := v]\<rparr>\<rparr>"

definition put_goalie :: "int \<Rightarrow> status \<Rightarrow> FULL_STAT \<Rightarrow> FULL_STAT" where
  "put_goalie i v s = s\<lparr>st := (st s)\<lparr>goalieStat := (goalieStat (st s))[nat i := v]\<rparr>\<rparr>"

definition get_player :: "int \<Rightarrow> FULL_STAT \<Rightarrow> status" where
  "get_player i s = playerStat (st s) ! nat i"

definition get_goalie :: "int \<Rightarrow> FULL_STAT \<Rightarrow> status" where
  "get_goalie i s = goalieStat (st s) ! nat i"

text \<open>\<open>if ((team = ...ConstituteTeam (n)) != 0)\<close> in main: where a process goes when
  playerConstituteTeam or goalieConstituteTeam returns.\<close>

definition after_return :: "int \<Rightarrow> pc" where
  "after_return t = (if t \<noteq> 0 then WrDown else Exit)"

text \<open>
  The step of a player at each program point: the semaphore operation, the shared region
  after the step, and the local state after the step.
  ArriveDown and ArriveUp are arrive; CtDown to CapRef are playerConstituteTeam (CtDown is
  the down of mutex with the whole decision, CapUp and CapDown the loop over the other
  players of the team, CapGoalieUp and CapGoalieDown the release of the goalie, CtUp the up
  of mutex, CtTest the tests of the own state made after it, RecDown, RecRead and RecUp the
  recruit, CapRef the signal to the referee); WrDown, WrUp and WrWait are waitReferee;
  PeDown, PeSignal, PeUp and PeWait are playUntilEnd.
\<close>

definition player_step :: "config \<Rightarrow> FULL_STAT \<Rightarrow> proc \<Rightarrow> semop \<times> FULL_STAT \<times> proc" where
  "player_step cfg s p =
     (case pc p of
        ArriveDown \<Rightarrow> (Wait mutex, put_player (ident p) ARRIVING s, p\<lparr>pc := ArriveUp\<rparr>)
      | ArriveUp \<Rightarrow> (Signal mutex, s, p\<lparr>pc := CtDown\<rparr>)
      | CtDown \<Rightarrow>
          (Wait mutex,
           let s1 = s\<lparr>playersArrived := playersArrived s + 1\<rparr>;
               s2 = s1\<lparr>playersFree := playersFree s1 + 1\<rparr>
           in if playersArrived s2 \<le> 2 * NUMTEAMPLAYERS cfg then
                (if playersFree s2 \<ge> NUMTEAMPLAYERS cfg \<and> goaliesFree s2 \<ge> NUMTEAMGOALIES cfg
                 then
                   (if 0 < NUMTEAMPLAYERS cfg - 1
                    then (put_player (ident p) FORMING_TEAM s2,
                          p\<lparr>pc := CapUp, idx := 0, team_of := 0\<rparr>)
                    else ((put_player (ident p) FORMING_TEAM s2)
                            \<lparr>playersFree := playersFree s2 - NUMTEAMPLAYERS cfg\<rparr>,
                          p\<lparr>pc := CapGoalieUp, idx := 0, team_of := 0\<rparr>))
                 else (put_player (ident p) WAITING_TEAM s2, p\<lparr>pc := CtUp, team_of := 0\<rparr>))
              else ((put_player (ident p) LATE s2)\<lparr>playersFree := playersFree s2 - 1\<rparr>,
                    p\<lparr>pc := CtUp, team_of := 0\<rparr>))
      | CapUp \<Rightarrow> (Signal playersWaitTeam, s, p\<lparr>pc := CapDown\<rparr>)
      | CapDown \<Rightarrow>
          (Wait playerRegistered,
           if idx p + 1 < NUMTEAMPLAYERS cfg - 1
           then (s, p\<lparr>pc := CapUp, idx := idx p + 1\<rparr>)
           else (s\<lparr>playersFree := playersFree s - NUMTEAMPLAYERS cfg\<rparr>,
                 p\<lparr>pc := CapGoalieUp, idx := idx p + 1\<rparr>))
      | CapGoalieUp \<Rightarrow> (Signal goaliesWaitTeam, s, p\<lparr>pc := CapGoalieDown\<rparr>)
      | CapGoalieDown \<Rightarrow>
          (Wait playerRegistered,
           s\<lparr>goaliesFree := goaliesFree s - NUMTEAMGOALIES cfg, teamId := teamId s + 1\<rparr>,
           p\<lparr>pc := CtUp, team_of := teamId s\<rparr>)
      | CtUp \<Rightarrow> (Signal mutex, s, p\<lparr>pc := CtTest\<rparr>)
      | CtTest \<Rightarrow>
          (Internal, s,
           if get_player (ident p) s = WAITING_TEAM then p\<lparr>pc := RecDown\<rparr>
           else if get_player (ident p) s = FORMING_TEAM then p\<lparr>pc := CapRef\<rparr>
           else p\<lparr>pc := after_return (team_of p)\<rparr>)
      | RecDown \<Rightarrow> (Wait playersWaitTeam, s, p\<lparr>pc := RecRead\<rparr>)
      | RecRead \<Rightarrow> (Internal, s, p\<lparr>pc := RecUp, team_of := teamId s\<rparr>)
      | RecUp \<Rightarrow> (Signal playerRegistered, s, p\<lparr>pc := after_return (team_of p)\<rparr>)
      | CapRef \<Rightarrow> (Signal refereeWaitTeams, s, p\<lparr>pc := after_return (team_of p)\<rparr>)
      | WrDown \<Rightarrow>
          (Wait mutex,
           if team_of p = 1 then put_player (ident p) WAITING_START_1 s
           else if team_of p = 2 then put_player (ident p) WAITING_START_2 s
           else s,
           p\<lparr>pc := WrUp\<rparr>)
      | WrUp \<Rightarrow> (Signal mutex, s, p\<lparr>pc := WrWait\<rparr>)
      | WrWait \<Rightarrow> (Wait playersWaitReferee, s, p\<lparr>pc := PeDown\<rparr>)
      | PeDown \<Rightarrow>
          (Wait mutex,
           if team_of p = 1 then put_player (ident p) PLAYING_1 s
           else if team_of p = 2 then put_player (ident p) PLAYING_2 s
           else s,
           p\<lparr>pc := PeSignal\<rparr>)
      | PeSignal \<Rightarrow> (Signal playing, s, p\<lparr>pc := PeUp\<rparr>)
      | PeUp \<Rightarrow> (Signal mutex, s, p\<lparr>pc := PeWait\<rparr>)
      | PeWait \<Rightarrow> (Wait playersWaitEnd, s, p\<lparr>pc := Exit\<rparr>)
      | Exit \<Rightarrow> (Internal, s, p))"

text \<open>
  The step of a goalie. In goalieConstituteTeam CapUp is the loop of the ups of
  playersWaitTeam and CapDown the loop of the downs of playerRegistered; a goalie is never
  at CapGoalieUp or CapGoalieDown. In playUntilEnd the state is written after the up of
  playing.
\<close>

definition goalie_step :: "config \<Rightarrow> FULL_STAT \<Rightarrow> proc \<Rightarrow> semop \<times> FULL_STAT \<times> proc" where
  "goalie_step cfg s p =
     (case pc p of
        ArriveDown \<Rightarrow> (Wait mutex, put_goalie (ident p) ARRIVING s, p\<lparr>pc := ArriveUp\<rparr>)
      | ArriveUp \<Rightarrow> (Signal mutex, s, p\<lparr>pc := CtDown\<rparr>)
      | CtDown \<Rightarrow>
          (Wait mutex,
           let s1 = s\<lparr>goaliesFree := goaliesFree s + 1\<rparr>;
               s2 = s1\<lparr>goaliesArrived := goaliesArrived s1 + 1\<rparr>
           in if goaliesArrived s2 \<le> 2 * NUMTEAMGOALIES cfg then
                (if playersFree s2 \<ge> NUMTEAMPLAYERS cfg \<and> goaliesFree s2 \<ge> NUMTEAMGOALIES cfg
                 then
                   (let s3 = (put_goalie (ident p) FORMING_TEAM s2)
                               \<lparr>goaliesFree := goaliesFree s2 - NUMTEAMGOALIES cfg\<rparr>
                    in if 0 < NUMTEAMPLAYERS cfg
                       then (s3, p\<lparr>pc := CapUp, idx := 0, team_of := 0\<rparr>)
                       else (s3\<lparr>playersFree := playersFree s3 - NUMTEAMPLAYERS cfg,
                                teamId := teamId s3 + 1\<rparr>,
                             p\<lparr>pc := CtUp, idx := 0, team_of := teamId s3\<rparr>))
                 else (put_goalie (ident p) WAITING_TEAM s2, p\<lparr>pc := CtUp, team_of := 0\<rparr>))
              else ((put_goalie (ident p) LATE s2)\<lparr>goaliesFree := goaliesFree s2 - 1\<rparr>,
                    p\<lparr>pc := CtUp, team_of := 0\<rparr>))
      | CapUp \<Rightarrow>
          (Signal playersWaitTeam, s,
           if idx p + 1 < NUMTEAMPLAYERS cfg
           then p\<lparr>pc := CapUp, idx := idx p + 1\<rparr>
           else p\<lparr>pc := CapDown, idx := 0\<rparr>)
      | CapDown \<Rightarrow>
          (Wait playerRegistered,
           if idx p + 1 < NUMTEAMPLAYERS cfg
           then (s, p\<lparr>pc := CapDown, idx := idx p + 1\<rparr>)
           else (s\<lparr>playersFree := playersFree s - NUMTEAMPLAYERS cfg,
                   teamId := teamId s + 1\<rparr>,
                 p\<lparr>pc := CtUp, idx := idx p + 1, team_of := teamId s\<rparr>))
      | CapGoalieUp \<Rightarrow> (Internal, s, p)
      | CapGoalieDown \<Rightarrow> (Internal, s, p)
      | CtUp \<Rightarrow> (Signal mutex, s, p\<lparr>pc := CtTest\<rparr>)
      | CtTest \<Rightarrow>
          (Internal, s,
           if get_goalie (ident p) s = FORMING_TEAM then p\<lparr>pc := CapRef\<rparr>
           else if get_goalie (ident p) s = WAITING_TEAM then p\<lparr>pc := RecDown\<rparr>
           else p\<lparr>pc := after_return (team_of p)\<rparr>)
      | RecDown \<Rightarrow> (Wait goaliesWaitTeam, s, p\<lparr>pc := RecRead\<rparr>)
      | RecRead \<Rightarrow> (Internal, s, p\<lparr>pc := RecUp, team_of := teamId s\<rparr>)
      | RecUp \<Rightarrow> (Signal playerRegistered, s, p\<lparr>pc := after_return (team_of p)\<rparr>)
      | CapRef \<Rightarrow> (Signal refereeWaitTeams, s, p\<lparr>pc := after_return (team_of p)\<rparr>)
      | WrDown \<Rightarrow>
          (Wait mutex,
           if team_of p = 1 then put_goalie (ident p) WAITING_START_1 s
           else if team_of p = 2 then put_goalie (ident p) WAITING_START_2 s
           else s,
           p\<lparr>pc := WrUp\<rparr>)
      | WrUp \<Rightarrow> (Signal mutex, s, p\<lparr>pc := WrWait\<rparr>)
      | WrWait \<Rightarrow> (Wait playersWaitReferee, s, p\<lparr>pc := PeDown\<rparr>)
      | PeDown \<Rightarrow> (Wait mutex, s, p\<lparr>pc := PeSignal\<rparr>)
      | PeSignal \<Rightarrow>
          (Signal playing,
           if team_of p = 1 then put_goalie (ident p) PLAYING_1 s
           else if team_of p = 2 then put_goalie (ident p) PLAYING_2 s
           else s,
           p\<lparr>pc := PeUp\<rparr>)
      | PeUp \<Rightarrow> (Signal mutex, s, p\<lparr>pc := PeWait\<rparr>)
      | PeWait \<Rightarrow> (Wait playersWaitEnd, s, p\<lparr>pc := Exit\<rparr>)
      | Exit \<Rightarrow> (Internal, s, p))"

definition proc_step :: "config \<Rightarrow> FULL_STAT \<Rightarrow> proc \<Rightarrow> semop \<times> FULL_STAT \<times> proc" where
  "proc_step cfg s p =
     (case kind p of Player \<Rightarrow> player_step cfg s p | Goalie \<Rightarrow> goalie_step cfg s p)"

text \<open>The slot of a process is inside the state array of its kind.\<close>

definition valid_slot :: "FULL_STAT \<Rightarrow> proc \<Rightarrow> bool" where
  "valid_slot s p =
     (0 \<le> ident p \<and>
      ident p < int (length (case kind p of Player \<Rightarrow> playerStat (st s)
                                           | Goalie \<Rightarrow> goalieStat (st s))))"

text \<open>
  The whole system: the shared region, the values of the semaphores, the processes, and
  whether the referee is inside the critical region.
\<close>

record system =
  mem :: FULL_STAT
  sems :: "sem \<Rightarrow> nat"
  procs :: "proc list"
  referee_in :: bool

text \<open>A down needs a positive semaphore and takes one from it; an up adds one.\<close>

fun enabled :: "semop \<Rightarrow> (sem \<Rightarrow> nat) \<Rightarrow> bool" where
  "enabled (Wait s) v = (0 < v s)"
| "enabled (Signal s) v = True"
| "enabled Internal v = True"

fun after_op :: "semop \<Rightarrow> (sem \<Rightarrow> nat) \<Rightarrow> (sem \<Rightarrow> nat)" where
  "after_op (Wait s) v = v(s := v s - 1)"
| "after_op (Signal s) v = v(s := v s + 1)"
| "after_op Internal v = v"

text \<open>
  Process \<open>k\<close> makes its step, when its semaphore operation can be made. A process that
  has exited, or whose slot is outside its state array, makes no step.
\<close>

definition fire :: "config \<Rightarrow> nat \<Rightarrow> system \<Rightarrow> system option" where
  "fire cfg k g =
     (if k < length (procs g) \<and> alive (procs g ! k) \<and> pc (procs g ! k) \<noteq> Exit \<and>
         valid_slot (mem g) (procs g ! k)
      then
        (case proc_step cfg (mem g) (procs g ! k) of
           (op, m, p) \<Rightarrow>
             if enabled op (sems g)
             then Some (g\<lparr>mem := m, sems := after_op op (sems g), procs := (procs g)[k := p]\<rparr>)
             else None)
      else None)"

text \<open>The semaphore operation of process \<open>k\<close> returns -1: the process exits where it is.\<close>

definition abort :: "config \<Rightarrow> nat \<Rightarrow> system \<Rightarrow> system option" where
  "abort cfg k g =
     (if k < length (procs g) \<and> alive (procs g ! k) \<and> pc (procs g ! k) \<noteq> Exit \<and>
         fst (proc_step cfg (mem g) (procs g ! k)) \<noteq> Internal
      then Some (g\<lparr>procs := (procs g)[k := (procs g ! k)\<lparr>alive := False\<rparr>]\<rparr>)
      else None)"

text \<open>
  Modelled from the spec: the referee, whose program is not among the sources at hand. It
  is external to the formation of the teams and meets the players and goalies at its two
  rendezvous only: it takes the teams-ready signals (refereeWaitTeams), opens the start
  gate (playersWaitReferee), takes the entered-play signals (playing) and opens the end
  gate (playersWaitEnd); it enters and leaves the critical region to record its own state.
  It may do any of these at any time.
\<close>

inductive referee :: "system \<Rightarrow> system \<Rightarrow> bool" where
  enter: "\<not> referee_in g \<Longrightarrow> 0 < sems g mutex \<Longrightarrow>
     referee g (g\<lparr>sems := (sems g)(mutex := sems g mutex - 1), referee_in := True\<rparr>)"
| leave: "referee_in g \<Longrightarrow>
     referee g (g\<lparr>sems := (sems g)(mutex := sems g mutex + 1), referee_in := False\<rparr>)"
| take: "s = refereeWaitTeams \<or> s = playing \<Longrightarrow> 0 < sems g s \<Longrightarrow>
     referee g (g\<lparr>sems := (sems g)(s := sems g s - 1)\<rparr>)"
| give: "s = playersWaitReferee \<or> s = playersWaitEnd \<Longrightarrow>
     referee g (g\<lparr>sems := (sems g)(s := sems g s + 1)\<rparr>)"

text \<open>A step of the system.\<close>

inductive step :: "config \<Rightarrow> system \<Rightarrow> system \<Rightarrow> bool" for cfg where
  fires: "fire cfg k g = Some g' \<Longrightarrow> step cfg g g'"
| aborts: "abort cfg k g = Some g' \<Longrightarrow> step cfg g g'"
| referees: "referee g g' \<Longrightarrow> step cfg g g'"

text \<open>
  Modelled from the spec: the state in which the launcher, whose program is not among the
  sources at hand, starts the processes. The team identifier starts at 1 and the counters
  at 0; the mutex is free and no other semaphore has been signalled; there is one player
  for each slot of playerStat and one goalie for each slot of goalieStat, each about to
  run arrive. A team has at least one player and at least one goalie.
\<close>

definition start :: "kind \<Rightarrow> nat \<Rightarrow> proc" where
  "start k i = \<lparr>kind = k, ident = int i, pc = ArriveDown, idx = 0, team_of = 0, alive = True\<rparr>"

definition initial :: "config \<Rightarrow> system \<Rightarrow> bool" where
  "initial cfg g =
     (1 \<le> NUMTEAMPLAYERS cfg \<and> 1 \<le> NUMTEAMGOALIES cfg \<and>
      length (playerStat (st (mem g))) = nat (NUMPLAYERS cfg) \<and>
      length (goalieStat (st (mem g))) = nat (NUMGOALIES cfg) \<and>
      playersArrived (mem g) = 0 \<and> playersFree (mem g) = 0 \<and>
      goaliesArrived (mem g) = 0 \<and> goaliesFree (mem g) = 0 \<and>
      teamId (mem g) = 1 \<and>
      sems g = (\<lambda>s. if s = mutex then 1 else 0) \<and>
      \<not> referee_in g \<and>
      procs g = map (start Player) [0..<nat (NUMPLAYERS cfg)] @
                map (start Goalie) [0..<nat (NUMGOALIES cfg)])"

inductive reachable :: "config \<Rightarrow> system \<Rightarrow> bool" for cfg where
  at_start: "initial cfg g \<Longrightarrow> reachable cfg g"
| after_step: "reachable cfg g \<Longrightarrow> step cfg g g' \<Longrightarrow> reachable cfg g'"

text \<open>The sum of a weight over the processes.\<close>

definition sum_over :: "(proc \<Rightarrow> int) \<Rightarrow> proc list \<Rightarrow> int" where
  "sum_over f ps = sum_list (map f ps)"

section \<open>Running the statements\<close>

lemma ok_upd [simp]:
  "ok (w\<lparr>trace := t\<rparr>) = ok w"
  "ok (w\<lparr>shm := s\<rparr>) = ok w"
  "ok (w\<lparr>ret := r\<rparr>) = ok w"
  by (simp_all add: ok_def)

lemma ok_halted [simp]: "ok w \<Longrightarrow> halted w = None"
  by (simp add: ok_def)

lemma semDown_ok [simp]: "ok w \<Longrightarrow> semDown s w = w\<lparr>trace := trace w @ [SemDown s]\<rparr>"
  by (simp add: semDown_def ok_def)

lemma semUp_ok [simp]: "ok w \<Longrightarrow> semUp s w = w\<lparr>trace := trace w @ [SemUp s]\<rparr>"
  by (simp add: semUp_def ok_def)

lemma assign_ok [simp]: "ok w \<Longrightarrow> assign f w = w\<lparr>shm := f (shm w)\<rparr>"
  by (simp add: assign_def)

lemma setRet_ok [simp]: "ok w \<Longrightarrow> setRet f w = w\<lparr>ret := f w\<rparr>"
  by (simp add: setRet_def)

lemma saveState_ok [simp]: "ok w \<Longrightarrow> saveState w = w\<lparr>trace := trace w @ [SaveState]\<rparr>"
  by (simp add: saveState_def)

lemma setPlayerStat_ok [simp]:
  "ok w \<Longrightarrow> 0 \<le> i \<Longrightarrow> i < int (length (playerStat (st (shm w)))) \<Longrightarrow>
   setPlayerStat i v w =
     w\<lparr>shm := (shm w)\<lparr>st := (st (shm w))\<lparr>playerStat := (playerStat (st (shm w)))[nat i := v]\<rparr>\<rparr>,
       trace := trace w @ [SetPlayerStat i v]\<rparr>"
  by (simp add: setPlayerStat_def)

lemma setGoalieStat_ok [simp]:
  "ok w \<Longrightarrow> 0 \<le> i \<Longrightarrow> i < int (length (goalieStat (st (shm w)))) \<Longrightarrow>
   setGoalieStat i v w =
     w\<lparr>shm := (shm w)\<lparr>st := (st (shm w))\<lparr>goalieStat := (goalieStat (st (shm w)))[nat i := v]\<rparr>\<rparr>,
       trace := trace w @ [SetGoalieStat i v]\<rparr>"
  by (simp add: setGoalieStat_def)

lemma seq_Nil [simp]: "seq [] w = w"
  by (simp add: seq_def)

lemma seq_Cons [simp]: "seq (c # cs) w = seq cs (c w)"
  by (simp add: seq_def)

lemma for_lt_funpow: "for_lt i n body w = (body ^^ nat (n - i)) w"
proof (induction i n body w rule: for_lt.induct)
  case (1 i n body w)
  show ?case
  proof (cases "i < n")
    case True
    then have "nat (n - i) = Suc (nat (n - (i + 1)))" by simp
    with True 1 show ?thesis
      by (simp add: for_lt.simps [of i n] funpow_swap1)
  next
    case False
    then show ?thesis by (simp add: for_lt.simps [of i n])
  qed
qed

lemma concat_replicate_comm: "concat (replicate k xs) @ xs = xs @ concat (replicate k xs)"
  by (induction k) auto

lemma pairs_funpow:
  "ok w \<Longrightarrow> (seq [semUp a, semDown b] ^^ k) w =
     w\<lparr>trace := trace w @ concat (replicate k [SemUp a, SemDown b])\<rparr>"
proof (induction k arbitrary: w)
  case 0
  then show ?case by simp
next
  case (Suc k)
  then show ?case using concat_replicate_comm [of k "[SemUp a, SemDown b]"] by (simp add: funpow_swap1)
qed

lemma ups_funpow:
  "ok w \<Longrightarrow> (semUp a ^^ k) w = w\<lparr>trace := trace w @ replicate k (SemUp a)\<rparr>"
proof (induction k arbitrary: w)
  case 0
  then show ?case by simp
next
  case (Suc k)
  then show ?case by (simp add: funpow_swap1 replicate_app_Cons_same)
qed

lemma downs_funpow:
  "ok w \<Longrightarrow> (semDown a ^^ k) w = w\<lparr>trace := trace w @ replicate k (SemDown a)\<rparr>"
proof (induction k arbitrary: w)
  case 0
  then show ?case by simp
next
  case (Suc k)
  then show ?case by (simp add: funpow_swap1 replicate_app_Cons_same)
qed

lemma upd_nth_slot [simp]:
  "0 \<le> i \<Longrightarrow> i < int (length xs) \<Longrightarrow> xs[nat i := v] ! nat i = v"
  by simp

text \<open>The three branches of playerConstituteTeam and of goalieConstituteTeam.\<close>

lemma player_late_run:
  assumes "ok w" "player_slot i w" "player_late cfg (shm w)"
  shows "playerConstituteTeam cfg i seen w =
     w\<lparr>shm := (shm w)\<lparr>st := (st (shm w))\<lparr>playerStat := (playerStat (st (shm w)))[nat i := LATE]\<rparr>,
                      playersArrived := playersArrived (shm w) + 1\<rparr>,
       trace := trace w @ [SemDown mutex, SetPlayerStat i LATE, SaveState, SemUp mutex],
       ret := 0\<rparr>"
  using assms by (simp add: playerConstituteTeam_def playerStatIs_def player_slot_def player_late_def)

lemma player_captain_run:
  assumes "ok w" "player_slot i w" "player_captain cfg (shm w)"
  shows "playerConstituteTeam cfg i seen w =
     w\<lparr>shm := (shm w)\<lparr>st := (st (shm w))\<lparr>playerStat := (playerStat (st (shm w)))[nat i := FORMING_TEAM]\<rparr>,
                      playersArrived := playersArrived (shm w) + 1,
                      playersFree := playersFree (shm w) + 1 - NUMTEAMPLAYERS cfg,
                      goaliesFree := goaliesFree (shm w) - NUMTEAMGOALIES cfg,
                      teamId := teamId (shm w) + 1\<rparr>,
       trace := trace w @ [SemDown mutex, SetPlayerStat i FORMING_TEAM] @
         concat (replicate (nat (NUMTEAMPLAYERS cfg - 1)) [SemUp playersWaitTeam, SemDown playerRegistered]) @
         [SemUp goaliesWaitTeam, SemDown playerRegistered, SaveState, SemUp mutex, SemUp refereeWaitTeams],
       ret := teamId (shm w)\<rparr>"
  using assms by (simp add: playerConstituteTeam_def playerStatIs_def player_slot_def player_captain_def
      for_lt_funpow pairs_funpow)

lemma player_recruit_run:
  assumes "ok w" "player_slot i w" "\<not> player_late cfg (shm w)" "\<not> player_captain cfg (shm w)"
  shows "playerConstituteTeam cfg i seen w =
     w\<lparr>shm := (shm w)\<lparr>st := (st (shm w))\<lparr>playerStat := (playerStat (st (shm w)))[nat i := WAITING_TEAM]\<rparr>,
                      playersArrived := playersArrived (shm w) + 1,
                      playersFree := playersFree (shm w) + 1\<rparr>,
       trace := trace w @ [SemDown mutex, SetPlayerStat i WAITING_TEAM, SaveState, SemUp mutex,
                           SemDown playersWaitTeam, SemUp playerRegistered],
       ret := seen\<rparr>"
proof -
  have a: "playersArrived (shm w) + 1 \<le> 2 * NUMTEAMPLAYERS cfg"
    using assms(3) by (simp add: player_late_def)
  have b: "\<not> (NUMTEAMPLAYERS cfg \<le> playersFree (shm w) + 1 \<and> NUMTEAMGOALIES cfg \<le> goaliesFree (shm w))"
    using assms(4) a by (simp add: player_captain_def)
  have s: "0 \<le> i" "i < int (length (playerStat (st (shm w))))"
    using assms(2) by (simp_all add: player_slot_def)
  show ?thesis
    unfolding playerConstituteTeam_def
    using assms(1) a s by (simp add: playerStatIs_def if_not_P [OF b])
qed

lemma goalie_late_run:
  assumes "ok w" "goalie_slot i w" "goalie_late cfg (shm w)"
  shows "goalieConstituteTeam cfg i seen w =
     w\<lparr>shm := (shm w)\<lparr>st := (st (shm w))\<lparr>goalieStat := (goalieStat (st (shm w)))[nat i := LATE]\<rparr>,
                      goaliesArrived := goaliesArrived (shm w) + 1\<rparr>,
       trace := trace w @ [SemDown mutex, SetGoalieStat i LATE, SaveState, SemUp mutex],
       ret := 0\<rparr>"
  using assms by (simp add: goalieConstituteTeam_def goalieStatIs_def goalie_slot_def goalie_late_def)

lemma goalie_captain_run:
  assumes "ok w" "goalie_slot i w" "goalie_captain cfg (shm w)"
  shows "goalieConstituteTeam cfg i seen w =
     w\<lparr>shm := (shm w)\<lparr>st := (st (shm w))\<lparr>goalieStat := (goalieStat (st (shm w)))[nat i := FORMING_TEAM]\<rparr>,
                      goaliesArrived := goaliesArrived (shm w) + 1,
                      goaliesFree := goaliesFree (shm w) + 1 - NUMTEAMGOALIES cfg,
                      playersFree := playersFree (shm w) - NUMTEAMPLAYERS cfg,
                      teamId := teamId (shm w) + 1\<rparr>,
       trace := trace w @ [SemDown mutex, SetGoalieStat i FORMING_TEAM] @
         replicate (nat (NUMTEAMPLAYERS cfg)) (SemUp playersWaitTeam) @
         replicate (nat (NUMTEAMPLAYERS cfg)) (SemDown playerRegistered) @
         [SaveState, SemUp mutex, SemUp refereeWaitTeams],
       ret := teamId (shm w)\<rparr>"
  using assms by (simp add: goalieConstituteTeam_def goalieStatIs_def goalie_slot_def goalie_captain_def
      for_lt_funpow ups_funpow downs_funpow)

lemma goalie_recruit_run:
  assumes "ok w" "goalie_slot i w" "\<not> goalie_late cfg (shm w)" "\<not> goalie_captain cfg (shm w)"
  shows "goalieConstituteTeam cfg i seen w =
     w\<lparr>shm := (shm w)\<lparr>st := (st (shm w))\<lparr>goalieStat := (goalieStat (st (shm w)))[nat i := WAITING_TEAM]\<rparr>,
                      goaliesArrived := goaliesArrived (shm w) + 1,
                      goaliesFree := goaliesFree (shm w) + 1\<rparr>,
       trace := trace w @ [SemDown mutex, SetGoalieStat i WAITING_TEAM, SaveState, SemUp mutex,
                           SemDown goaliesWaitTeam, SemUp playerRegistered],
       ret := seen\<rparr>"
proof -
  have a: "goaliesArrived (shm w) + 1 \<le> 2 * NUMTEAMGOALIES cfg"
    using assms(3) by (simp add: goalie_late_def)
  have b: "\<not> (NUMTEAMPLAYERS cfg \<le> playersFree (shm w) \<and> NUMTEAMGOALIES cfg \<le> goaliesFree (shm w) + 1)"
    using assms(4) a by (simp add: goalie_captain_def)
  have s: "0 \<le> i" "i < int (length (goalieStat (st (shm w))))"
    using assms(2) by (simp_all add: goalie_slot_def)
  show ?thesis
    unfolding goalieConstituteTeam_def
    using assms(1) a s by (simp add: goalieStatIs_def if_not_P [OF b])
qed

text \<open>waitReferee and playUntilEnd.\<close>

lemma player_waitReferee_run:
  assumes "ok w" "player_slot i w" "team = 1 \<or> team = 2"
  shows "player_waitReferee i team w =
     w\<lparr>shm := (shm w)\<lparr>st := (st (shm w))\<lparr>playerStat :=
                 (playerStat (st (shm w)))[nat i := waiting_start team]\<rparr>\<rparr>,
       trace := trace w @ [SemDown mutex, SetPlayerStat i (waiting_start team), SaveState,
                           SemUp mutex, SemDown playersWaitReferee]\<rparr>"
  using assms by (auto simp add: player_waitReferee_def player_slot_def waiting_start_def)

lemma player_waitReferee_other:
  assumes "ok w" "team \<noteq> 1" "team \<noteq> 2"
  shows "player_waitReferee i team w =
     w\<lparr>trace := trace w @ [SemDown mutex, SaveState, SemUp mutex, SemDown playersWaitReferee]\<rparr>"
  using assms by (simp add: player_waitReferee_def)

lemma player_playUntilEnd_run:
  assumes "ok w" "player_slot i w" "team = 1 \<or> team = 2"
  shows "player_playUntilEnd i team w =
     w\<lparr>shm := (shm w)\<lparr>st := (st (shm w))\<lparr>playerStat :=
                 (playerStat (st (shm w)))[nat i := playing_in team]\<rparr>\<rparr>,
       trace := trace w @ [SemDown mutex, SetPlayerStat i (playing_in team), SemUp playing, SaveState,
                           SemUp mutex, SemDown playersWaitEnd]\<rparr>"
  using assms by (auto simp add: player_playUntilEnd_def player_slot_def playing_in_def)

lemma player_playUntilEnd_other:
  assumes "ok w" "team \<noteq> 1" "team \<noteq> 2"
  shows "player_playUntilEnd i team w =
     w\<lparr>trace := trace w @ [SemDown mutex, SemUp playing, SaveState, SemUp mutex, SemDown playersWaitEnd]\<rparr>"
  using assms by (simp add: player_playUntilEnd_def)

lemma goalie_waitReferee_run:
  assumes "ok w" "goalie_slot i w" "team = 1 \<or> team = 2"
  shows "goalie_waitReferee i team w =
     w\<lparr>shm := (shm w)\<lparr>st := (st (shm w))\<lparr>goalieStat :=
                 (goalieStat (st (shm w)))[nat i := waiting_start team]\<rparr>\<rparr>,
       trace := trace w @ [SemDown mutex, SetGoalieStat i (waiting_start team), SaveState,
                           SemUp mutex, SemDown playersWaitReferee]\<rparr>"
  using assms by (auto simp add: goalie_waitReferee_def goalie_slot_def waiting_start_def)

lemma goalie_waitReferee_other:
  assumes "ok w" "team \<noteq> 1" "team \<noteq> 2"
  shows "goalie_waitReferee i team w =
     w\<lparr>trace := trace w @ [SemDown mutex, SaveState, SemUp mutex, SemDown playersWaitReferee]\<rparr>"
  using assms by (simp add: goalie_waitReferee_def)

lemma goalie_playUntilEnd_run:
  assumes "ok w" "goalie_slot i w" "team = 1 \<or> team = 2"
  shows "goalie_playUntilEnd i team w =
     w\<lparr>shm := (shm w)\<lparr>st := (st (shm w))\<lparr>goalieStat :=
                 (goalieStat (st (shm w)))[nat i := playing_in team]\<rparr>\<rparr>,
       trace := trace w @ [SemDown mutex, SemUp playing, SetGoalieStat i (playing_in team), SaveState,
                           SemUp mutex, SemDown playersWaitEnd]\<rparr>"
  using assms by (auto simp add: goalie_playUntilEnd_def goalie_slot_def playing_in_def)

lemma goalie_playUntilEnd_other:
  assumes "ok w" "team \<noteq> 1" "team \<noteq> 2"
  shows "goalie_playUntilEnd i team w =
     w\<lparr>trace := trace w @ [SemDown mutex, SemUp playing, SaveState, SemUp mutex, SemDown playersWaitEnd]\<rparr>"
  using assms by (simp add: goalie_playUntilEnd_def)

lemma events_of_app [simp]: "trace (c w) = trace w @ es \<Longrightarrow> events_of c w = es"
  by (simp add: events_of_def)

lemma handshake_pairs:
  "handshake False (concat (replicate k [SemUp playersWaitTeam, SemDown playerRegistered]) @ es) =
   handshake False es"
  by (induction k) simp_all

lemma waits_inside_pairs:
  "waits_inside True (concat (replicate k [SemUp playersWaitTeam, SemDown playerRegistered]) @ es) =
   replicate k playerRegistered @ waits_inside True es"
  by (induction k) simp_all

lemma waits_inside_ups:
  "waits_inside True (replicate k (SemUp playersWaitTeam) @ es) = waits_inside True es"
  by (induction k) simp_all

lemma waits_inside_downs:
  "waits_inside True (replicate k (SemDown playerRegistered) @ es) =
   replicate k playerRegistered @ waits_inside True es"
  by (induction k) simp_all

lemma count_pairs [simp]:
  "count_list (concat (replicate k [SemUp playersWaitTeam, SemDown playerRegistered])) e =
   (if e = SemUp playersWaitTeam \<or> e = SemDown playerRegistered then k else 0)"
  by (induction k) auto

lemma count_replicate [simp]:
  "count_list (replicate k a) e = (if e = a then k else 0)"
  by (induction k) auto

text \<open>The events of the two captains.\<close>

lemma player_captain_events:
  assumes "ok w" "player_slot i w" "player_captain cfg (shm w)"
  shows "events_of (playerConstituteTeam cfg i seen) w =
     [SemDown mutex, SetPlayerStat i FORMING_TEAM] @
       concat (replicate (nat (NUMTEAMPLAYERS cfg - 1)) [SemUp playersWaitTeam, SemDown playerRegistered]) @
       [SemUp goaliesWaitTeam, SemDown playerRegistered, SaveState, SemUp mutex, SemUp refereeWaitTeams]"
  by (rule events_of_app) (simp add: player_captain_run [OF assms])

lemma goalie_captain_events:
  assumes "ok w" "goalie_slot i w" "goalie_captain cfg (shm w)"
  shows "events_of (goalieConstituteTeam cfg i seen) w =
     [SemDown mutex, SetGoalieStat i FORMING_TEAM] @
       replicate (nat (NUMTEAMPLAYERS cfg)) (SemUp playersWaitTeam) @
       replicate (nat (NUMTEAMPLAYERS cfg)) (SemDown playerRegistered) @
       [SaveState, SemUp mutex, SemUp refereeWaitTeams]"
  by (rule events_of_app) (simp add: goalie_captain_run [OF assms])

lemma player_late_events:
  assumes "ok w" "player_slot i w" "player_late cfg (shm w)"
  shows "events_of (playerConstituteTeam cfg i seen) w =
     [SemDown mutex, SetPlayerStat i LATE, SaveState, SemUp mutex]"
  by (rule events_of_app) (simp add: player_late_run [OF assms])

lemma goalie_late_events:
  assumes "ok w" "goalie_slot i w" "goalie_late cfg (shm w)"
  shows "events_of (goalieConstituteTeam cfg i seen) w =
     [SemDown mutex, SetGoalieStat i LATE, SaveState, SemUp mutex]"
  by (rule events_of_app) (simp add: goalie_late_run [OF assms])

lemma player_recruit_events:
  assumes "ok w" "player_slot i w" "\<not> player_late cfg (shm w)" "\<not> player_captain cfg (shm w)"
  shows "events_of (playerConstituteTeam cfg i seen) w =
     [SemDown mutex, SetPlayerStat i WAITING_TEAM, SaveState, SemUp mutex,
      SemDown playersWaitTeam, SemUp playerRegistered]"
  by (rule events_of_app) (simp add: player_recruit_run [OF assms])

lemma goalie_recruit_events:
  assumes "ok w" "goalie_slot i w" "\<not> goalie_late cfg (shm w)" "\<not> goalie_captain cfg (shm w)"
  shows "events_of (goalieConstituteTeam cfg i seen) w =
     [SemDown mutex, SetGoalieStat i WAITING_TEAM, SaveState, SemUp mutex,
      SemDown goaliesWaitTeam, SemUp playerRegistered]"
  by (rule events_of_app) (simp add: goalie_recruit_run [OF assms])

lemma late_not_captain: "player_late cfg s \<Longrightarrow> \<not> player_captain cfg s"
  "goalie_late cfg s \<Longrightarrow> \<not> goalie_captain cfg s"
  by (simp_all add: player_late_def player_captain_def goalie_late_def goalie_captain_def)

lemma player_captain_handshake:
  assumes "ok w" "player_slot i w" "player_captain cfg (shm w)"
  shows "handshake False (events_of (playerConstituteTeam cfg i seen) w)"
  by (simp add: player_captain_events [OF assms] handshake_pairs)

lemma player_waits_inside:
  assumes "ok w" "player_slot i w"
  shows "waits_inside False (events_of (playerConstituteTeam cfg i seen) w) =
     (if player_captain cfg (shm w)
      then replicate (nat (NUMTEAMPLAYERS cfg - 1) + 1) playerRegistered else [])"
proof (cases "player_captain cfg (shm w)")
  case True
  then show ?thesis
    by (simp add: player_captain_events [OF assms True] waits_inside_pairs replicate_append_same)
next
  case False
  show ?thesis
  proof (cases "player_late cfg (shm w)")
    case True
    with False show ?thesis by (simp add: player_late_events [OF assms True])
  next
    case nl: False
    with False show ?thesis by (simp add: player_recruit_events [OF assms nl False])
  qed
qed

lemma goalie_waits_inside:
  assumes "ok w" "goalie_slot i w"
  shows "waits_inside False (events_of (goalieConstituteTeam cfg i seen) w) =
     (if goalie_captain cfg (shm w)
      then replicate (nat (NUMTEAMPLAYERS cfg)) playerRegistered else [])"
proof (cases "goalie_captain cfg (shm w)")
  case True
  then show ?thesis
    by (simp add: goalie_captain_events [OF assms True] waits_inside_ups waits_inside_downs)
next
  case False
  show ?thesis
  proof (cases "goalie_late cfg (shm w)")
    case True
    with False show ?thesis by (simp add: goalie_late_events [OF assms True])
  next
    case nl: False
    with False show ?thesis by (simp add: goalie_recruit_events [OF assms nl False])
  qed
qed

lemma wr_pe_waits_inside:
  assumes "ok w"
  shows "player_slot i w \<Longrightarrow> waits_inside False (events_of (player_waitReferee i team) w) = []"
    and "player_slot i w \<Longrightarrow> waits_inside False (events_of (player_playUntilEnd i team) w) = []"
    and "goalie_slot j w \<Longrightarrow> waits_inside False (events_of (goalie_waitReferee j team) w) = []"
    and "goalie_slot j w \<Longrightarrow> waits_inside False (events_of (goalie_playUntilEnd j team) w) = []"
proof -
  consider "team = 1 \<or> team = 2" | "team \<noteq> 1" "team \<noteq> 2" by blast
  then show "player_slot i w \<Longrightarrow> waits_inside False (events_of (player_waitReferee i team) w) = []"
    using assms by cases
      (simp_all add: events_of_def player_waitReferee_run player_waitReferee_other)
  consider "team = 1 \<or> team = 2" | "team \<noteq> 1" "team \<noteq> 2" by blast
  then show "player_slot i w \<Longrightarrow> waits_inside False (events_of (player_playUntilEnd i team) w) = []"
    using assms by cases
      (simp_all add: events_of_def player_playUntilEnd_run player_playUntilEnd_other)
  consider "team = 1 \<or> team = 2" | "team \<noteq> 1" "team \<noteq> 2" by blast
  then show "goalie_slot j w \<Longrightarrow> waits_inside False (events_of (goalie_waitReferee j team) w) = []"
    using assms by cases
      (simp_all add: events_of_def goalie_waitReferee_run goalie_waitReferee_other)
  consider "team = 1 \<or> team = 2" | "team \<noteq> 1" "team \<noteq> 2" by blast
  then show "goalie_slot j w \<Longrightarrow> waits_inside False (events_of (goalie_playUntilEnd j team) w) = []"
    using assms by cases
      (simp_all add: events_of_def goalie_playUntilEnd_run goalie_playUntilEnd_other)
qed

text \<open>The worlds used as examples.\<close>

lemma ok_world_of [simp]: "ok (world_of s)"
  by (simp add: ok_def world_of_def)

lemma world_of_sel [simp]:
  "shm (world_of s) = s" "trace (world_of s) = []" "ret (world_of s) = 0"
  "halted (world_of s) = None" "strayStore (world_of s) = adjacent_store"
  "strayLoad (world_of s) = adjacent_load"
  by (simp_all add: world_of_def)

lemma slots_examples [simp]:
  "player_slot 0 (world_of one_each_region)" "player_slot 1 (world_of one_each_region)"
  "goalie_slot 0 (world_of two_players_region)" "goalie_slot 1 (world_of one_each_region)"
  "player_slot 4 (world_of full_region)" "goalie_slot 2 (world_of full_region)"
  "player_slot 0 (world_of full_region)" "goalie_slot 0 (world_of full_region)"
  by (simp_all add: player_slot_def goalie_slot_def one_each_region_def two_players_region_def
      full_region_def)

lemma small_config_sel [simp]:
  "NUMPLAYERS small_config = 5" "NUMGOALIES small_config = 3"
  "NUMTEAMPLAYERS small_config = 2" "NUMTEAMGOALIES small_config = 1"
  by (simp_all add: small_config_def)

lemma branch_examples [simp]:
  "player_captain small_config one_each_region"
  "goalie_captain small_config two_players_region"
  "player_late small_config full_region"
  "goalie_late small_config full_region"
  by (simp_all add: player_captain_def goalie_captain_def player_late_def goalie_late_def
      small_config_def one_each_region_def two_players_region_def full_region_def)

lemma two_goalies_examples [simp]:
  "NUMTEAMPLAYERS two_goalies_config = 2" "NUMTEAMGOALIES two_goalies_config = 2"
  "player_slot 1 (world_of two_goalies_region)"
  "player_captain two_goalies_config two_goalies_region"
  by (simp_all add: two_goalies_config_def two_goalies_region_def player_slot_def
      player_captain_def)

lemma fresh_examples [simp]:
  "player_slot 0 (world_of fresh_region)" "goalie_slot 0 (world_of fresh_region)"
  "\<not> player_captain small_config fresh_region" "\<not> player_late small_config fresh_region"
  by (simp_all add: fresh_region_def player_slot_def goalie_slot_def player_captain_def
      player_late_def)

lemma region_sel [simp]:
  "playerStat (st fresh_region) = replicate 5 ARRIVING"
  "goalieStat (st fresh_region) = replicate 3 ARRIVING"
  "playersArrived fresh_region = 0" "playersFree fresh_region = 0"
  "goaliesArrived fresh_region = 0" "goaliesFree fresh_region = 0" "teamId fresh_region = 1"
  "playerStat (st one_each_region) = [WAITING_TEAM, ARRIVING, ARRIVING, ARRIVING, ARRIVING]"
  "goalieStat (st one_each_region) = [WAITING_TEAM, ARRIVING, ARRIVING]"
  "playersArrived one_each_region = 1" "playersFree one_each_region = 1"
  "goaliesArrived one_each_region = 1" "goaliesFree one_each_region = 1"
  "teamId one_each_region = 1"
  "playerStat (st two_players_region) = [WAITING_TEAM, WAITING_TEAM, ARRIVING, ARRIVING, ARRIVING]"
  "goalieStat (st two_players_region) = [ARRIVING, ARRIVING, ARRIVING]"
  "playersArrived two_players_region = 2" "playersFree two_players_region = 2"
  "goaliesArrived two_players_region = 0" "goaliesFree two_players_region = 0"
  "teamId two_players_region = 1"
  "playerStat (st full_region) = [PLAYING_1, PLAYING_1, PLAYING_2, PLAYING_2, ARRIVING]"
  "goalieStat (st full_region) = [PLAYING_1, PLAYING_2, ARRIVING]"
  "playersArrived full_region = 4" "playersFree full_region = 0"
  "goaliesArrived full_region = 2" "goaliesFree full_region = 0" "teamId full_region = 3"
  by (simp_all add: fresh_region_def one_each_region_def two_players_region_def full_region_def)

text \<open>The life cycle after arrive, for a late process.\<close>

lemma player_life_late:
  assumes "ok w" "player_slot i w" "player_late cfg (shm w)"
  shows "player_life cfg i seen w =
     w\<lparr>shm := (shm w)\<lparr>st := (st (shm w))\<lparr>playerStat := (playerStat (st (shm w)))[nat i := LATE]\<rparr>,
                      playersArrived := playersArrived (shm w) + 1\<rparr>,
       trace := trace w @ [SemDown mutex, SetPlayerStat i LATE, SaveState, SemUp mutex],
       ret := 0\<rparr>"
  by (simp add: player_life_def player_late_run [OF assms])

lemma goalie_life_late:
  assumes "ok w" "goalie_slot i w" "goalie_late cfg (shm w)"
  shows "goalie_life cfg i seen w =
     w\<lparr>shm := (shm w)\<lparr>st := (st (shm w))\<lparr>goalieStat := (goalieStat (st (shm w)))[nat i := LATE]\<rparr>,
                      goaliesArrived := goaliesArrived (shm w) + 1\<rparr>,
       trace := trace w @ [SemDown mutex, SetGoalieStat i LATE, SaveState, SemUp mutex],
       ret := 0\<rparr>"
  by (simp add: goalie_life_def goalie_late_run [OF assms])

text \<open>What the captains release, and what they leave in the counters.\<close>

lemma player_captain_counts:
  assumes "ok w" "player_slot i w" "player_captain cfg (shm w)"
  shows "count_list (events_of (playerConstituteTeam cfg i seen) w) (SemUp playersWaitTeam) =
           nat (NUMTEAMPLAYERS cfg - 1)"
    and "count_list (events_of (playerConstituteTeam cfg i seen) w) (SemUp goaliesWaitTeam) = 1"
    and "count_list (events_of (playerConstituteTeam cfg i seen) w) (SemDown playerRegistered) =
           nat (NUMTEAMPLAYERS cfg - 1) + 1"
  by (simp_all add: player_captain_events [OF assms])

lemma goalie_captain_counts:
  assumes "ok w" "goalie_slot i w" "goalie_captain cfg (shm w)"
  shows "count_list (events_of (goalieConstituteTeam cfg i seen) w) (SemUp playersWaitTeam) =
           nat (NUMTEAMPLAYERS cfg)"
    and "count_list (events_of (goalieConstituteTeam cfg i seen) w) (SemUp goaliesWaitTeam) = 0"
    and "count_list (events_of (goalieConstituteTeam cfg i seen) w) (SemDown playerRegistered) =
           nat (NUMTEAMPLAYERS cfg)"
  by (simp_all add: goalie_captain_events [OF assms])

lemma player_captain_counters:
  assumes "ok w" "player_slot i w" "player_captain cfg (shm w)"
  shows "playersFree (shm (playerConstituteTeam cfg i seen w)) =
           playersFree (shm w) + 1 - NUMTEAMPLAYERS cfg"
    and "goaliesFree (shm (playerConstituteTeam cfg i seen w)) =
           goaliesFree (shm w) - NUMTEAMGOALIES cfg"
    and "teamId (shm (playerConstituteTeam cfg i seen w)) = teamId (shm w) + 1"
    and "ret (playerConstituteTeam cfg i seen w) = teamId (shm w)"
  by (simp_all add: player_captain_run [OF assms])

lemma goalie_captain_counters:
  assumes "ok w" "goalie_slot i w" "goalie_captain cfg (shm w)"
  shows "playersFree (shm (goalieConstituteTeam cfg i seen w)) =
           playersFree (shm w) - NUMTEAMPLAYERS cfg"
    and "goaliesFree (shm (goalieConstituteTeam cfg i seen w)) =
           goaliesFree (shm w) + 1 - NUMTEAMGOALIES cfg"
    and "teamId (shm (goalieConstituteTeam cfg i seen w)) = teamId (shm w) + 1"
    and "ret (goalieConstituteTeam cfg i seen w) = teamId (shm w)"
  by (simp_all add: goalie_captain_run [OF assms])

text \<open>The events of waitReferee and playUntilEnd.\<close>

lemma referee_events:
  assumes "ok w" "team = 1 \<or> team = 2"
  shows "player_slot i w \<Longrightarrow> events_of (player_waitReferee i team) w =
           [SemDown mutex, SetPlayerStat i (waiting_start team), SaveState,
            SemUp mutex, SemDown playersWaitReferee]"
    and "player_slot i w \<Longrightarrow> events_of (player_playUntilEnd i team) w =
           [SemDown mutex, SetPlayerStat i (playing_in team), SemUp playing, SaveState,
            SemUp mutex, SemDown playersWaitEnd]"
    and "goalie_slot j w \<Longrightarrow> events_of (goalie_waitReferee j team) w =
           [SemDown mutex, SetGoalieStat j (waiting_start team), SaveState,
            SemUp mutex, SemDown playersWaitReferee]"
    and "goalie_slot j w \<Longrightarrow> events_of (goalie_playUntilEnd j team) w =
           [SemDown mutex, SemUp playing, SetGoalieStat j (playing_in team), SaveState,
            SemUp mutex, SemDown playersWaitEnd]"
  using assms
  by (simp_all add: events_of_def player_waitReferee_run player_playUntilEnd_run
      goalie_waitReferee_run goalie_playUntilEnd_run)

lemma referee_events_other:
  assumes "ok w" "team \<noteq> 1" "team \<noteq> 2"
  shows "events_of (player_waitReferee i team) w =
           [SemDown mutex, SaveState, SemUp mutex, SemDown playersWaitReferee]"
    and "events_of (player_playUntilEnd i team) w =
           [SemDown mutex, SemUp playing, SaveState, SemUp mutex, SemDown playersWaitEnd]"
    and "events_of (goalie_waitReferee j team) w =
           [SemDown mutex, SaveState, SemUp mutex, SemDown playersWaitReferee]"
    and "events_of (goalie_playUntilEnd j team) w =
           [SemDown mutex, SemUp playing, SaveState, SemUp mutex, SemDown playersWaitEnd]"
  using assms
  by (simp_all add: events_of_def player_waitReferee_other player_playUntilEnd_other
      goalie_waitReferee_other goalie_playUntilEnd_other)

lemma referee_shm_other:
  assumes "ok w" "team \<noteq> 1" "team \<noteq> 2"
  shows "shm (player_waitReferee i team w) = shm w"
    and "shm (player_playUntilEnd i team w) = shm w"
    and "shm (goalie_waitReferee j team w) = shm w"
    and "shm (goalie_playUntilEnd j team w) = shm w"
  using assms
  by (simp_all add: player_waitReferee_other player_playUntilEnd_other
      goalie_waitReferee_other goalie_playUntilEnd_other)

text \<open>The frame of waitReferee and playUntilEnd.\<close>

lemma same_but_refl [simp]: "same_but i xs xs"
  by (simp add: same_but_def)

lemma same_but_upd [simp]: "0 \<le> i \<Longrightarrow> same_but i xs (xs[nat i := v])"
  by (auto simp add: same_but_def)

lemma frame_refl [simp]: "frame_player i s s" "frame_goalie i s s"
  by (simp_all add: frame_player_def frame_goalie_def same_counters_def)

lemma frame_player_upd [simp]:
  "0 \<le> i \<Longrightarrow> frame_player i s (s\<lparr>st := (st s)\<lparr>playerStat := (playerStat (st s))[nat i := v]\<rparr>\<rparr>)"
  by (simp add: frame_player_def same_counters_def)

lemma frame_goalie_upd [simp]:
  "0 \<le> i \<Longrightarrow> frame_goalie i s (s\<lparr>st := (st s)\<lparr>goalieStat := (goalieStat (st s))[nat i := v]\<rparr>\<rparr>)"
  by (simp add: frame_goalie_def same_counters_def)

lemma referee_frames:
  assumes "ok w"
  shows "player_slot i w \<Longrightarrow> frame_player i (shm w) (shm (player_waitReferee i team w))"
    and "player_slot i w \<Longrightarrow> frame_player i (shm w) (shm (player_playUntilEnd i team w))"
    and "goalie_slot j w \<Longrightarrow> frame_goalie j (shm w) (shm (goalie_waitReferee j team w))"
    and "goalie_slot j w \<Longrightarrow> frame_goalie j (shm w) (shm (goalie_playUntilEnd j team w))"
proof -
  consider "team = 1 \<or> team = 2" | "team \<noteq> 1" "team \<noteq> 2" by blast
  then show "player_slot i w \<Longrightarrow> frame_player i (shm w) (shm (player_waitReferee i team w))"
    using assms by cases
      (simp_all add: player_waitReferee_run player_waitReferee_other player_slot_def)
  consider "team = 1 \<or> team = 2" | "team \<noteq> 1" "team \<noteq> 2" by blast
  then show "player_slot i w \<Longrightarrow> frame_player i (shm w) (shm (player_playUntilEnd i team w))"
    using assms by cases
      (simp_all add: player_playUntilEnd_run player_playUntilEnd_other player_slot_def)
  consider "team = 1 \<or> team = 2" | "team \<noteq> 1" "team \<noteq> 2" by blast
  then show "goalie_slot j w \<Longrightarrow> frame_goalie j (shm w) (shm (goalie_waitReferee j team w))"
    using assms by cases
      (simp_all add: goalie_waitReferee_run goalie_waitReferee_other goalie_slot_def)
  consider "team = 1 \<or> team = 2" | "team \<noteq> 1" "team \<noteq> 2" by blast
  then show "goalie_slot j w \<Longrightarrow> frame_goalie j (shm w) (shm (goalie_playUntilEnd j team w))"
    using assms by cases
      (simp_all add: goalie_playUntilEnd_run goalie_playUntilEnd_other goalie_slot_def)
qed

section \<open>Runs that stop at a semaphore call\<close>

text \<open>Once the process has stopped, no statement has an effect.\<close>

lemma stop_here:
  assumes "halted w \<noteq> None"
  shows "semDown s w = w" "semUp s w = w" "assign u w = w" "setRet f w = w" "saveState w = w"
    "setPlayerStat i v w = w" "setGoalieStat i v w = w"
  using assms
  by (simp_all add: semDown_def semUp_def assign_def setRet_def saveState_def setPlayerStat_def
      setGoalieStat_def)

lemma funpow_stop:
  assumes "halted w \<noteq> None" "\<And>w. halted w \<noteq> None \<Longrightarrow> f w = w"
  shows "(f ^^ k) w = w"
  using assms by (induction k) simp_all

lemma length_pairs [simp]: "length (concat (replicate m [a, b])) = 2 * m"
  by (induction m) simp_all

lemma funpow_first: "(f ^^ Suc m) w = (f ^^ m) (f w)"
  by (simp add: funpow_swap1)

lemma pairs_clear:
  "halted w = None \<Longrightarrow> (\<And>k. k < length (trace w) + 2 * m \<Longrightarrow> \<not> semFail w k) \<Longrightarrow>
   (seq [semUp a, semDown b] ^^ m) w =
     w\<lparr>trace := trace w @ concat (replicate m [SemUp a, SemDown b])\<rparr>"
proof (induction m arbitrary: w)
  case 0
  then show ?case by simp
next
  case (Suc m)
  have f: "\<not> semFail w (length (trace w))" "\<not> semFail w (Suc (length (trace w)))"
    using Suc.prems(2) by simp_all
  have one: "seq [semUp a, semDown b] w = w\<lparr>trace := trace w @ [SemUp a, SemDown b]\<rparr>"
    using Suc.prems(1) f by (simp add: semUp_def semDown_def)
  have "(seq [semUp a, semDown b] ^^ m) (w\<lparr>trace := trace w @ [SemUp a, SemDown b]\<rparr>) =
        (w\<lparr>trace := trace w @ [SemUp a, SemDown b]\<rparr>)\<lparr>trace :=
           trace (w\<lparr>trace := trace w @ [SemUp a, SemDown b]\<rparr>) @
           concat (replicate m [SemUp a, SemDown b])\<rparr>"
    by (rule Suc.IH) (use Suc.prems in simp_all)
  then show ?case
    unfolding funpow_first one by simp
qed

lemma ups_clear:
  "halted w = None \<Longrightarrow> (\<And>k. k < length (trace w) + m \<Longrightarrow> \<not> semFail w k) \<Longrightarrow>
   (semUp a ^^ m) w = w\<lparr>trace := trace w @ replicate m (SemUp a)\<rparr>"
proof (induction m arbitrary: w)
  case 0
  then show ?case by simp
next
  case (Suc m)
  have f: "\<not> semFail w (length (trace w))"
    using Suc.prems(2) by simp
  have one: "semUp a w = w\<lparr>trace := trace w @ [SemUp a]\<rparr>"
    using Suc.prems(1) f by (simp add: semUp_def)
  have "(semUp a ^^ m) (w\<lparr>trace := trace w @ [SemUp a]\<rparr>) =
        (w\<lparr>trace := trace w @ [SemUp a]\<rparr>)\<lparr>trace :=
           trace (w\<lparr>trace := trace w @ [SemUp a]\<rparr>) @ replicate m (SemUp a)\<rparr>"
    by (rule Suc.IH) (use Suc.prems in simp_all)
  then show ?case
    unfolding funpow_first one by (simp add: replicate_app_Cons_same)
qed

lemma downs_clear:
  "halted w = None \<Longrightarrow> (\<And>k. k < length (trace w) + m \<Longrightarrow> \<not> semFail w k) \<Longrightarrow>
   (semDown a ^^ m) w = w\<lparr>trace := trace w @ replicate m (SemDown a)\<rparr>"
proof (induction m arbitrary: w)
  case 0
  then show ?case by simp
next
  case (Suc m)
  have f: "\<not> semFail w (length (trace w))"
    using Suc.prems(2) by simp
  have one: "semDown a w = w\<lparr>trace := trace w @ [SemDown a]\<rparr>"
    using Suc.prems(1) f by (simp add: semDown_def)
  have "(semDown a ^^ m) (w\<lparr>trace := trace w @ [SemDown a]\<rparr>) =
        (w\<lparr>trace := trace w @ [SemDown a]\<rparr>)\<lparr>trace :=
           trace (w\<lparr>trace := trace w @ [SemDown a]\<rparr>) @ replicate m (SemDown a)\<rparr>"
    by (rule Suc.IH) (use Suc.prems in simp_all)
  then show ?case
    unfolding funpow_first one by (simp add: replicate_app_Cons_same)
qed

lemma ups_fail_first:
  assumes "halted w = None" "semFail w (length (trace w))" "0 < m"
  shows "(semUp a ^^ m) w = w\<lparr>halted := Some (SemFailure a)\<rparr>"
proof -
  obtain k where m: "m = Suc k"
    using assms(3) by (cases m) simp_all
  have one: "semUp a w = w\<lparr>halted := Some (SemFailure a)\<rparr>"
    using assms(1,2) by (simp add: semUp_def)
  show ?thesis
    unfolding m funpow_first one
    by (rule funpow_stop) (simp_all add: stop_here)
qed

lemma downs_fail_last:
  assumes "halted w = None" "\<And>k. k < length (trace w) + m \<Longrightarrow> \<not> semFail w k"
    "semFail w (length (trace w) + m)"
  shows "(semDown a ^^ Suc m) w =
     w\<lparr>trace := trace w @ replicate m (SemDown a), halted := Some (SemFailure a)\<rparr>"
proof -
  have "(semDown a ^^ m) w = w\<lparr>trace := trace w @ replicate m (SemDown a)\<rparr>"
    using assms(1,2) by (rule downs_clear)
  then show ?thesis
    using assms(1,3) by (simp add: semDown_def)
qed

text \<open>The goalie captain at its first release.\<close>

lemma goalie_captain_first_release:
  assumes "ok w" "goalie_slot i w" "goalie_captain cfg (shm w)" "1 \<le> NUMTEAMPLAYERS cfg"
  shows "stopped_after 2 (goalieConstituteTeam cfg i seen) w =
     w\<lparr>semFail := (\<lambda>k. k = length (trace w) + 2),
       shm := (shm w)\<lparr>st := (st (shm w))\<lparr>goalieStat := (goalieStat (st (shm w)))[nat i := FORMING_TEAM]\<rparr>,
                      goaliesArrived := goaliesArrived (shm w) + 1,
                      goaliesFree := goaliesFree (shm w) + 1 - NUMTEAMGOALIES cfg\<rparr>,
       trace := trace w @ [SemDown mutex, SetGoalieStat i FORMING_TEAM],
       ret := 0,
       halted := Some (SemFailure playersWaitTeam)\<rparr>"
proof -
  have h: "halted w = None"
    using assms(1) by simp
  have s: "0 \<le> i" "i < int (length (goalieStat (st (shm w))))"
    using assms(2) by (simp_all add: goalie_slot_def)
  have c: "goaliesArrived (shm w) + 1 \<le> 2 * NUMTEAMGOALIES cfg"
    "NUMTEAMPLAYERS cfg \<le> playersFree (shm w)" "NUMTEAMGOALIES cfg \<le> goaliesFree (shm w) + 1"
    using assms(3) by (simp_all add: goalie_captain_def)
  have m: "0 < nat (NUMTEAMPLAYERS cfg)"
    using assms(4) by simp
  show ?thesis
    unfolding stopped_after_def goalieConstituteTeam_def
    using h s c
    by (simp add: setRet_def semDown_def assign_def setGoalieStat_def for_lt_funpow
        ups_fail_first [OF _ _ m] funpow_stop stop_here goalieStatIs_def)
qed

text \<open>The player captain at its release of the goalie, and at its wait for the
  acknowledgement of the goalie.\<close>

lemma player_captain_stopped:
  assumes "ok w" "player_slot i w" "player_captain cfg (shm w)"
  defines "m \<equiv> nat (NUMTEAMPLAYERS cfg - 1)"
  defines "wC \<equiv> (\<lambda>n.
     w\<lparr>semFail := (\<lambda>k. k = length (trace w) + n),
       shm := (shm w)\<lparr>st := (st (shm w))\<lparr>playerStat := (playerStat (st (shm w)))[nat i := FORMING_TEAM]\<rparr>,
                      playersArrived := playersArrived (shm w) + 1,
                      playersFree := playersFree (shm w) + 1 - NUMTEAMPLAYERS cfg\<rparr>,
       trace := trace w @ [SemDown mutex, SetPlayerStat i FORMING_TEAM] @
         concat (replicate m [SemUp playersWaitTeam, SemDown playerRegistered]),
       ret := 0\<rparr>)"
  shows "stopped_after (2 + 2 * m) (playerConstituteTeam cfg i seen) w =
           (wC (2 + 2 * m))\<lparr>halted := Some (SemFailure goaliesWaitTeam)\<rparr>"
    and "stopped_after (3 + 2 * m) (playerConstituteTeam cfg i seen) w =
           (wC (3 + 2 * m))\<lparr>trace := trace (wC (3 + 2 * m)) @ [SemUp goaliesWaitTeam],
                              halted := Some (SemFailure playerRegistered)\<rparr>"
proof -
  have h: "halted w = None"
    using assms(1) by simp
  have s: "0 \<le> i" "i < int (length (playerStat (st (shm w))))"
    using assms(2) by (simp_all add: player_slot_def)
  have c: "playersArrived (shm w) + 1 \<le> 2 * NUMTEAMPLAYERS cfg"
    "NUMTEAMPLAYERS cfg \<le> playersFree (shm w) + 1" "NUMTEAMGOALIES cfg \<le> goaliesFree (shm w)"
    using assms(3) by (simp_all add: player_captain_def)
  have run: "playerConstituteTeam cfg i seen (w\<lparr>semFail := (\<lambda>k. k = length (trace w) + n)\<rparr>) =
      seq [semDown playerRegistered,
           assign (\<lambda>s. s\<lparr>goaliesFree := goaliesFree s - NUMTEAMGOALIES cfg\<rparr>),
           setRet (\<lambda>w. teamId (shm w)),
           assign (\<lambda>s. s\<lparr>teamId := teamId s + 1\<rparr>),
           saveState,
           semUp mutex,
           (\<lambda>w. if playerStatIs i WAITING_TEAM w then
                 seq [semDown playersWaitTeam, setRet (\<lambda>w. seen), semUp playerRegistered] w
               else if playerStatIs i FORMING_TEAM w then semUp refereeWaitTeams w
               else w)] (semUp goaliesWaitTeam (wC n))"
    if n: "2 + 2 * m \<le> n" for n
  proof -
    define w0 where "w0 = w\<lparr>semFail := (\<lambda>k. k = length (trace w) + n)\<rparr>"
    define wA where "wA = w0\<lparr>shm := (shm w)\<lparr>playersArrived := playersArrived (shm w) + 1,
                      playersFree := playersFree (shm w) + 1\<rparr>,
       trace := trace w @ [SemDown mutex], ret := 0\<rparr>"
    define wB where "wB = wA\<lparr>shm := (shm wA)\<lparr>st := (st (shm w))\<lparr>playerStat := (playerStat (st (shm w)))[nat i := FORMING_TEAM]\<rparr>\<rparr>,
       trace := trace wA @ [SetPlayerStat i FORMING_TEAM]\<rparr>"
    have a0: "assign (\<lambda>s. s\<lparr>playersFree := playersFree s + 1\<rparr>)
               (assign (\<lambda>s. s\<lparr>playersArrived := playersArrived s + 1\<rparr>)
                 (semDown mutex (setRet (\<lambda>w. 0) w0))) = wA"
      using h n by (simp add: w0_def wA_def setRet_def semDown_def assign_def)
    have t: "playersArrived (shm wA) \<le> 2 * NUMTEAMPLAYERS cfg"
      "NUMTEAMPLAYERS cfg \<le> playersFree (shm wA) \<and> NUMTEAMGOALIES cfg \<le> goaliesFree (shm wA)"
      using c by (simp_all add: wA_def w0_def)
    have a: "setPlayerStat i FORMING_TEAM wA = wB"
      using h s by (simp add: w0_def wA_def wB_def setPlayerStat_def)
    have b: "for_lt 0 (NUMTEAMPLAYERS cfg - 1) (seq [semUp playersWaitTeam, semDown playerRegistered]) wB =
         wB\<lparr>trace := trace wB @ concat (replicate m [SemUp playersWaitTeam, SemDown playerRegistered])\<rparr>"
      unfolding for_lt_funpow
      using pairs_clear [of wB m playersWaitTeam playerRegistered] h n
      by (simp add: wB_def wA_def w0_def m_def)
    have d: "assign (\<lambda>s. s\<lparr>playersFree := playersFree s - NUMTEAMPLAYERS cfg\<rparr>)
         (wB\<lparr>trace := trace wB @ concat (replicate m [SemUp playersWaitTeam, SemDown playerRegistered])\<rparr>) = wC n"
      using h by (simp add: wC_def wB_def wA_def w0_def assign_def)
    show ?thesis
      unfolding playerConstituteTeam_def w0_def [symmetric] seq_Cons [of "setRet (\<lambda>w. 0)"]
        seq_Cons [of "semDown mutex"] seq_Cons [of "assign u" for u] a0 
        seq_Cons [of "\<lambda>w. if playersArrived (shm w) \<le> 2 * NUMTEAMPLAYERS cfg then x w else y w" for x y]
        if_P [OF t(1)] if_P [OF t(2)] seq_Cons [of "setPlayerStat i FORMING_TEAM"] a
        seq_Cons [of "for_lt 0 j k" for j k] b d seq_Nil
      by simp
  qed
  show "stopped_after (2 + 2 * m) (playerConstituteTeam cfg i seen) w =
           (wC (2 + 2 * m))\<lparr>halted := Some (SemFailure goaliesWaitTeam)\<rparr>"
  proof -
    define wE where "wE = (wC (2 + 2 * m))\<lparr>halted := Some (SemFailure goaliesWaitTeam)\<rparr>"
    have u: "semUp goaliesWaitTeam (wC (2 + 2 * m)) = wE"
      using h by (simp add: semUp_def wC_def wE_def)
    have e: "halted wE \<noteq> None"
      by (simp add: wE_def)
    show ?thesis
      unfolding stopped_after_def run [OF le_refl] u wE_def [symmetric]
      by (simp add: stop_here [OF e])
  qed
  show "stopped_after (3 + 2 * m) (playerConstituteTeam cfg i seen) w =
           (wC (3 + 2 * m))\<lparr>trace := trace (wC (3 + 2 * m)) @ [SemUp goaliesWaitTeam],
                              halted := Some (SemFailure playerRegistered)\<rparr>"
  proof -
    define wD where "wD = (wC (3 + 2 * m))\<lparr>trace := trace (wC (3 + 2 * m)) @ [SemUp goaliesWaitTeam]\<rparr>"
    define wE where "wE = wD\<lparr>halted := Some (SemFailure playerRegistered)\<rparr>"
    have u: "semUp goaliesWaitTeam (wC (3 + 2 * m)) = wD"
      using h by (simp add: semUp_def wC_def wD_def)
    have v: "semDown playerRegistered wD = wE"
      using h by (simp add: semDown_def wC_def wD_def wE_def)
    have e: "halted wE \<noteq> None"
      by (simp add: wE_def)
    have n: "2 + 2 * m \<le> 3 + 2 * m"
      by simp
    have "stopped_after (3 + 2 * m) (playerConstituteTeam cfg i seen) w = wE"
      unfolding stopped_after_def run [OF n] u seq_Cons [of "semDown playerRegistered"] v
      by (simp add: stop_here [OF e])
    then show ?thesis
      by (simp add: wE_def wD_def)
  qed
qed

text \<open>The goalie captain at its last wait for an acknowledgement.\<close>

lemma goalie_captain_last_ack:
  assumes "ok w" "goalie_slot i w" "goalie_captain cfg (shm w)" "1 \<le> NUMTEAMPLAYERS cfg"
  defines "m \<equiv> nat (NUMTEAMPLAYERS cfg)"
  shows "stopped_after (2 * m + 1) (goalieConstituteTeam cfg i seen) w =
     w\<lparr>semFail := (\<lambda>k. k = length (trace w) + (2 * m + 1)),
       shm := (shm w)\<lparr>st := (st (shm w))\<lparr>goalieStat := (goalieStat (st (shm w)))[nat i := FORMING_TEAM]\<rparr>,
                      goaliesArrived := goaliesArrived (shm w) + 1,
                      goaliesFree := goaliesFree (shm w) + 1 - NUMTEAMGOALIES cfg\<rparr>,
       trace := trace w @ [SemDown mutex, SetGoalieStat i FORMING_TEAM] @
         replicate m (SemUp playersWaitTeam) @ replicate (m - 1) (SemDown playerRegistered),
       ret := 0,
       halted := Some (SemFailure playerRegistered)\<rparr>"
proof -
  have h: "halted w = None"
    using assms(1) by simp
  have s: "0 \<le> i" "i < int (length (goalieStat (st (shm w))))"
    using assms(2) by (simp_all add: goalie_slot_def)
  have c: "goaliesArrived (shm w) + 1 \<le> 2 * NUMTEAMGOALIES cfg"
    "NUMTEAMPLAYERS cfg \<le> playersFree (shm w)" "NUMTEAMGOALIES cfg \<le> goaliesFree (shm w) + 1"
    using assms(3) by (simp_all add: goalie_captain_def)
  obtain j where j: "m = Suc j"
    using assms(4) by (cases m) (simp_all add: m_def)
  define w0 where "w0 = w\<lparr>semFail := (\<lambda>k. k = length (trace w) + (2 * m + 1))\<rparr>"
  define wA where "wA = w0\<lparr>shm := (shm w)\<lparr>goaliesArrived := goaliesArrived (shm w) + 1,
                      goaliesFree := goaliesFree (shm w) + 1\<rparr>,
       trace := trace w @ [SemDown mutex], ret := 0\<rparr>"
  define wB where "wB = wA\<lparr>shm := (shm w)\<lparr>st := (st (shm w))\<lparr>goalieStat := (goalieStat (st (shm w)))[nat i := FORMING_TEAM]\<rparr>,
                      goaliesArrived := goaliesArrived (shm w) + 1,
                      goaliesFree := goaliesFree (shm w) + 1 - NUMTEAMGOALIES cfg\<rparr>,
       trace := trace wA @ [SetGoalieStat i FORMING_TEAM]\<rparr>"
  define wC where "wC = wB\<lparr>trace := trace wB @ replicate m (SemUp playersWaitTeam)\<rparr>"
  define wE where "wE = wC\<lparr>trace := trace wC @ replicate j (SemDown playerRegistered),
       halted := Some (SemFailure playerRegistered)\<rparr>"
  have a0: "assign (\<lambda>s. s\<lparr>goaliesArrived := goaliesArrived s + 1\<rparr>)
             (assign (\<lambda>s. s\<lparr>goaliesFree := goaliesFree s + 1\<rparr>)
               (semDown mutex (setRet (\<lambda>w. 0) w0))) = wA"
    using h by (simp add: w0_def wA_def setRet_def semDown_def assign_def)
  have t: "goaliesArrived (shm wA) \<le> 2 * NUMTEAMGOALIES cfg"
    "NUMTEAMPLAYERS cfg \<le> playersFree (shm wA) \<and> NUMTEAMGOALIES cfg \<le> goaliesFree (shm wA)"
    using c by (simp_all add: wA_def w0_def)
  have a: "assign (\<lambda>s. s\<lparr>goaliesFree := goaliesFree s - NUMTEAMGOALIES cfg\<rparr>)
             (setGoalieStat i FORMING_TEAM wA) = wB"
    using h s by (simp add: w0_def wA_def wB_def setGoalieStat_def assign_def)
  have b: "for_lt 0 (NUMTEAMPLAYERS cfg) (semUp playersWaitTeam) wB = wC"
    unfolding for_lt_funpow wC_def
    using ups_clear [of wB m playersWaitTeam] h assms(4)
    by (simp add: wB_def wA_def w0_def m_def)
  have d: "for_lt 0 (NUMTEAMPLAYERS cfg) (semDown playerRegistered) wC = wE"
    unfolding for_lt_funpow wE_def
    using downs_fail_last [of wC j playerRegistered] h j
    by (simp add: wC_def wB_def wA_def w0_def m_def [symmetric] del: funpow.simps)
  have e: "halted wE \<noteq> None"
    by (simp add: wE_def)
  have "goalieConstituteTeam cfg i seen w0 = wE"
    unfolding goalieConstituteTeam_def seq_Cons [of "setRet (\<lambda>w. 0)"]
      seq_Cons [of "semDown mutex"] seq_Cons [of "assign u" for u] a0
      seq_Cons [of "\<lambda>w. if goaliesArrived (shm w) \<le> 2 * NUMTEAMGOALIES cfg then x w else y w" for x y]
      if_P [OF t(1)] if_P [OF t(2)] seq_Cons [of "setGoalieStat i FORMING_TEAM"] a
      seq_Cons [of "for_lt 0 k l" for k l] b d
    by (simp add: stop_here [OF e])
  then show ?thesis
    unfolding stopped_after_def w0_def [symmetric]
    by (simp add: wE_def wC_def wB_def wA_def w0_def j)
qed

section \<open>The registration handshake of a captain (C1)\<close>

text \<open>
  C1, as stated, asks that both captains release and collect strictly in turn. The goalie
  captain does not: with teams of two players it ups playersWaitTeam twice before its first
  down of playerRegistered.
\<close>

theorem goalie_captain_batches_releases:
  "\<not> handshake False
        (events_of (goalieConstituteTeam small_config 0 1) (world_of two_players_region))"
proof -
  have "events_of (goalieConstituteTeam small_config 0 1) (world_of two_players_region) =
     [SemDown mutex, SetGoalieStat 0 FORMING_TEAM] @
       replicate (nat (NUMTEAMPLAYERS small_config)) (SemUp playersWaitTeam) @
       replicate (nat (NUMTEAMPLAYERS small_config)) (SemDown playerRegistered) @
       [SaveState, SemUp mutex, SemUp refereeWaitTeams]"
    by (rule goalie_captain_events) simp_all
  then show ?thesis
    by (simp add: small_config_def eval_nat_numeral)
qed

text \<open>
  C1, amended. A player that becomes captain makes NUMTEAMPLAYERS - 1 pairs of an up of
  playersWaitTeam followed at once by a down of playerRegistered, then one such pair for
  goaliesWaitTeam: its handshake is strictly sequential. A goalie that becomes captain makes
  NUMTEAMPLAYERS ups of playersWaitTeam in a row and then NUMTEAMPLAYERS downs of
  playerRegistered: as many waits as releases, but in one batch.
\<close>

theorem captain_handshake:
  assumes "ok w"
  shows "(player_slot i w \<and> player_captain cfg (shm w) \<longrightarrow>
            events_of (playerConstituteTeam cfg i seen) w =
              [SemDown mutex, SetPlayerStat i FORMING_TEAM] @
              concat (replicate (nat (NUMTEAMPLAYERS cfg - 1))
                        [SemUp playersWaitTeam, SemDown playerRegistered]) @
              [SemUp goaliesWaitTeam, SemDown playerRegistered,
               SaveState, SemUp mutex, SemUp refereeWaitTeams] \<and>
            handshake False (events_of (playerConstituteTeam cfg i seen) w)) \<and>
         (goalie_slot j w \<and> goalie_captain cfg (shm w) \<longrightarrow>
            events_of (goalieConstituteTeam cfg j seen) w =
              [SemDown mutex, SetGoalieStat j FORMING_TEAM] @
              replicate (nat (NUMTEAMPLAYERS cfg)) (SemUp playersWaitTeam) @
              replicate (nat (NUMTEAMPLAYERS cfg)) (SemDown playerRegistered) @
              [SaveState, SemUp mutex, SemUp refereeWaitTeams])"
  using assms player_captain_events player_captain_handshake goalie_captain_events by blast

text \<open>The amended C1 on a player captain and on a goalie captain of teams of two players.\<close>

theorem captain_handshake_witness:
  "ok (world_of one_each_region) \<and>
   player_slot 1 (world_of one_each_region) \<and> player_captain small_config one_each_region \<and>
   events_of (playerConstituteTeam small_config 1 0) (world_of one_each_region) =
     [SemDown mutex, SetPlayerStat 1 FORMING_TEAM,
      SemUp playersWaitTeam, SemDown playerRegistered,
      SemUp goaliesWaitTeam, SemDown playerRegistered,
      SaveState, SemUp mutex, SemUp refereeWaitTeams] \<and>
   handshake False (events_of (playerConstituteTeam small_config 1 0) (world_of one_each_region)) \<and>
   ok (world_of two_players_region) \<and>
   goalie_slot 0 (world_of two_players_region) \<and> goalie_captain small_config two_players_region \<and>
   events_of (goalieConstituteTeam small_config 0 0) (world_of two_players_region) =
     [SemDown mutex, SetGoalieStat 0 FORMING_TEAM,
      SemUp playersWaitTeam, SemUp playersWaitTeam,
      SemDown playerRegistered, SemDown playerRegistered,
      SaveState, SemUp mutex, SemUp refereeWaitTeams]"
  using captain_handshake [of "world_of one_each_region" 1 small_config 0 0]
    captain_handshake [of "world_of two_players_region" 0 small_config 0 0]
  by (simp add: eval_nat_numeral)

section \<open>Waits inside the critical region (C2)\<close>

text \<open>
  C2, as stated, asks that no blocking wait is made while the mutex is held. A player that
  becomes captain waits on playerRegistered, twice with teams of two players, between its
  down and its up of mutex.
\<close>

theorem captain_waits_inside:
  "waits_inside False
     (events_of (playerConstituteTeam small_config 1 0) (world_of one_each_region)) =
   [playerRegistered, playerRegistered]"
proof -
  have "waits_inside False
      (events_of (playerConstituteTeam small_config 1 0) (world_of one_each_region)) =
     (if player_captain small_config (shm (world_of one_each_region))
      then replicate (nat (NUMTEAMPLAYERS small_config - 1) + 1) playerRegistered else [])"
    by (rule player_waits_inside) simp_all
  then show ?thesis
    by (simp add: eval_nat_numeral)
qed

text \<open>
  C2, amended. The only semaphore a process waits on while it holds the mutex is
  playerRegistered, and only a captain does so (once per recruit it releases), in
  playerConstituteTeam and goalieConstituteTeam. A process that is not a captain makes no
  wait inside the critical region, and waitReferee and playUntilEnd never do: the waits on
  playersWaitTeam, goaliesWaitTeam, playersWaitReferee and playersWaitEnd are all made
  after the up of mutex.
\<close>

theorem waits_inside_region:
  assumes "ok w" "player_slot i w" "goalie_slot j w"
  shows "waits_inside False (events_of (playerConstituteTeam cfg i seen) w) =
           (if player_captain cfg (shm w)
            then replicate (nat (NUMTEAMPLAYERS cfg - 1) + 1) playerRegistered else []) \<and>
         waits_inside False (events_of (goalieConstituteTeam cfg j seen) w) =
           (if goalie_captain cfg (shm w)
            then replicate (nat (NUMTEAMPLAYERS cfg)) playerRegistered else []) \<and>
         waits_inside False (events_of (player_waitReferee i team) w) = [] \<and>
         waits_inside False (events_of (player_playUntilEnd i team) w) = [] \<and>
         waits_inside False (events_of (goalie_waitReferee j team) w) = [] \<and>
         waits_inside False (events_of (goalie_playUntilEnd j team) w) = []"
  using assms player_waits_inside goalie_waits_inside wr_pe_waits_inside by simp

text \<open>The amended C2 on a player that arrives first and becomes a recruit: its wait on
  playersWaitTeam is outside the critical region.\<close>

theorem waits_inside_region_witness:
  "ok (world_of fresh_region) \<and> player_slot 0 (world_of fresh_region) \<and>
   goalie_slot 0 (world_of fresh_region) \<and>
   \<not> player_captain small_config (shm (world_of fresh_region)) \<and>
   waits_inside False (events_of (playerConstituteTeam small_config 0 1) (world_of fresh_region)) = [] \<and>
   waits_inside False (events_of (player_waitReferee 0 1) (world_of fresh_region)) = [] \<and>
   waits_inside False (events_of (goalie_playUntilEnd 0 1) (world_of fresh_region)) = []"
  using waits_inside_region [of "world_of fresh_region" 0 0 small_config 1 1]
  by (simp add: player_slot_def goalie_slot_def fresh_region_def player_captain_def)

section \<open>Late arrivals (C5)\<close>



section \<open>The quota of a captain (C6)\<close>




section \<open>The two rendezvous with the referee (C8)\<close>

text \<open>
  C8, as stated, asks that in playUntilEnd a team member first marks itself as playing and
  then signals the referee. The goalie does it the other way round: in the events of a goalie
  of team 1 the write of PLAYING_1 does not come before the up of playing.
\<close>

theorem goalie_signals_before_marking:
  "\<not> precedes (SetGoalieStat 0 PLAYING_1) (SemUp playing)
        (events_of (goalie_playUntilEnd 0 1) (world_of full_region))"
proof -
  have "events_of (goalie_playUntilEnd 0 1) (world_of full_region) =
      [SemDown mutex, SemUp playing, SetGoalieStat 0 (playing_in 1), SaveState,
       SemUp mutex, SemDown playersWaitEnd]"
    by (rule referee_events) simp_all
  then show ?thesis by simp
qed

text \<open>
  C8, amended. A member of team 1 or 2, in waitReferee, writes WAITING_START of its team
  inside the critical region and then waits once on playersWaitReferee. In playUntilEnd,
  inside the critical region, a player writes PLAYING of its team and then ups playing once,
  a goalie ups playing once and then writes PLAYING of its team; after the up of mutex each
  waits once on playersWaitEnd.
\<close>

theorem referee_rendezvous:
  assumes "ok w" "team = 1 \<or> team = 2"
  shows "(player_slot i w \<longrightarrow>
            events_of (player_waitReferee i team) w =
              [SemDown mutex, SetPlayerStat i (waiting_start team), SaveState,
               SemUp mutex, SemDown playersWaitReferee] \<and>
            events_of (player_playUntilEnd i team) w =
              [SemDown mutex, SetPlayerStat i (playing_in team), SemUp playing, SaveState,
               SemUp mutex, SemDown playersWaitEnd]) \<and>
         (goalie_slot j w \<longrightarrow>
            events_of (goalie_waitReferee j team) w =
              [SemDown mutex, SetGoalieStat j (waiting_start team), SaveState,
               SemUp mutex, SemDown playersWaitReferee] \<and>
            events_of (goalie_playUntilEnd j team) w =
              [SemDown mutex, SemUp playing, SetGoalieStat j (playing_in team), SaveState,
               SemUp mutex, SemDown playersWaitEnd])"
  using assms referee_events by simp

text \<open>The amended C8 on player 0 and goalie 0, members of team 2.\<close>

theorem referee_rendezvous_witness:
  "ok (world_of full_region) \<and> ((2::int) = 1 \<or> (2::int) = 2) \<and>
   player_slot 0 (world_of full_region) \<and>
   events_of (player_waitReferee 0 2) (world_of full_region) =
     [SemDown mutex, SetPlayerStat 0 WAITING_START_2, SaveState,
      SemUp mutex, SemDown playersWaitReferee] \<and>
   events_of (player_playUntilEnd 0 2) (world_of full_region) =
     [SemDown mutex, SetPlayerStat 0 PLAYING_2, SemUp playing, SaveState,
      SemUp mutex, SemDown playersWaitEnd] \<and>
   goalie_slot 0 (world_of full_region) \<and>
   events_of (goalie_waitReferee 0 2) (world_of full_region) =
     [SemDown mutex, SetGoalieStat 0 WAITING_START_2, SaveState,
      SemUp mutex, SemDown playersWaitReferee] \<and>
   events_of (goalie_playUntilEnd 0 2) (world_of full_region) =
     [SemDown mutex, SemUp playing, SetGoalieStat 0 PLAYING_2, SaveState,
      SemUp mutex, SemDown playersWaitEnd]"
  using referee_rendezvous [of "world_of full_region" 2 0 0]
  by (simp add: waiting_start_def playing_in_def)

section \<open>The identification of the process (C9)\<close>

text \<open>
  C9 asks that an identification outside the range of the pool is rejected before the
  protocol starts. The test of the main programs is \<open>n >= NUMPLAYERS\<close>
  (\<open>n >= NUMGOALIES\<close>) on the signed \<open>n\<close>, so it lets a negative number through: with
  \<open>argv[1]\<close> = "-1" strtol reads -1 and leaves nothing of the string, \<open>n\<close> is -1, and the
  process is not turned away. It runs arrive, takes the mutex and stores at index -1 of
  its state array, which is outside the array. With the state array of the goalies right
  after that of the players, the player is killed at that store, holding the mutex; the
  goalie runs its whole life cycle on the last entry of the players, which it leaves as
  PLAYING_1, and its main program returns EXIT_SUCCESS.
\<close>

theorem negative_id_accepted:
  "id_of_long (- 1) = - 1 \<and>
   player_main small_config 4 (- 1, []) True True 1 (world_of fresh_region) =
     (Crashed, (world_of fresh_region)\<lparr>trace := [SemDown mutex], halted := Some Killed\<rparr>) \<and>
   goalie_main small_config 4 (- 1, []) True True 1 (world_of fresh_region) =
     (Ended EXIT_SUCCESS,
      (world_of fresh_region)
        \<lparr>shm := fresh_region
           \<lparr>st := (st fresh_region)
              \<lparr>playerStat := [ARRIVING, ARRIVING, ARRIVING, ARRIVING, PLAYING_1]\<rparr>,
            goaliesArrived := 1, goaliesFree := 1\<rparr>,
         trace :=
           [SemDown mutex, SetGoalieStat (- 1) ARRIVING, SaveState, SemUp mutex,
            SemDown mutex, SetGoalieStat (- 1) WAITING_TEAM, SaveState, SemUp mutex,
            SemDown goaliesWaitTeam, SemUp playerRegistered,
            SemDown mutex, SetGoalieStat (- 1) WAITING_START_1, SaveState, SemUp mutex,
            SemDown playersWaitReferee,
            SemDown mutex, SemUp playing, SetGoalieStat (- 1) PLAYING_1, SaveState, SemUp mutex,
            SemDown playersWaitEnd],
         ret := 1\<rparr>)"
proof -
  have n: "id_of_long (- 1) = - 1"
    by (simp add: id_of_long_def)
  let ?k = "(world_of fresh_region)\<lparr>trace := [SemDown mutex], halted := Some Killed\<rparr>"
  have h: "halted ?k \<noteq> None"
    by simp
  have pa: "player_arrive (- 1) (world_of fresh_region) = ?k"
    by (simp add: player_arrive_def setPlayerStat_def adjacent_store_def stop_here [OF h])
  have pl: "player_life small_config (- 1) 1 ?k = ?k"
    unfolding player_life_def playerConstituteTeam_def player_waitReferee_def
      player_playUntilEnd_def
    by (simp add: stop_here [OF h] for_lt_funpow funpow_stop del: semDown_ok semUp_ok)
  have p: "player_main small_config 4 (- 1, []) True True 1 (world_of fresh_region) = (Crashed, ?k)"
    by (simp add: n player_main_def pa pl Let_def)
  let ?a = "(world_of fresh_region)
      \<lparr>shm := fresh_region\<lparr>st := (st fresh_region)
               \<lparr>playerStat := [ARRIVING, ARRIVING, ARRIVING, ARRIVING, ARRIVING]\<rparr>\<rparr>,
       trace := [SemDown mutex, SetGoalieStat (- 1) ARRIVING, SaveState, SemUp mutex]\<rparr>"
  let ?c = "(world_of fresh_region)
      \<lparr>shm := fresh_region\<lparr>st := (st fresh_region)
               \<lparr>playerStat := [ARRIVING, ARRIVING, ARRIVING, ARRIVING, WAITING_TEAM]\<rparr>,
             goaliesArrived := 1, goaliesFree := 1\<rparr>,
       trace := [SemDown mutex, SetGoalieStat (- 1) ARRIVING, SaveState, SemUp mutex,
                 SemDown mutex, SetGoalieStat (- 1) WAITING_TEAM, SaveState, SemUp mutex,
                 SemDown goaliesWaitTeam, SemUp playerRegistered],
       ret := 1\<rparr>"
  let ?r = "(world_of fresh_region)
      \<lparr>shm := fresh_region\<lparr>st := (st fresh_region)
               \<lparr>playerStat := [ARRIVING, ARRIVING, ARRIVING, ARRIVING, WAITING_START_1]\<rparr>,
             goaliesArrived := 1, goaliesFree := 1\<rparr>,
       trace := [SemDown mutex, SetGoalieStat (- 1) ARRIVING, SaveState, SemUp mutex,
                 SemDown mutex, SetGoalieStat (- 1) WAITING_TEAM, SaveState, SemUp mutex,
                 SemDown goaliesWaitTeam, SemUp playerRegistered,
                 SemDown mutex, SetGoalieStat (- 1) WAITING_START_1, SaveState, SemUp mutex,
                 SemDown playersWaitReferee],
       ret := 1\<rparr>"
  let ?e = "(world_of fresh_region)
      \<lparr>shm := fresh_region\<lparr>st := (st fresh_region)
               \<lparr>playerStat := [ARRIVING, ARRIVING, ARRIVING, ARRIVING, PLAYING_1]\<rparr>,
             goaliesArrived := 1, goaliesFree := 1\<rparr>,
       trace := [SemDown mutex, SetGoalieStat (- 1) ARRIVING, SaveState, SemUp mutex,
                 SemDown mutex, SetGoalieStat (- 1) WAITING_TEAM, SaveState, SemUp mutex,
                 SemDown goaliesWaitTeam, SemUp playerRegistered,
                 SemDown mutex, SetGoalieStat (- 1) WAITING_START_1, SaveState, SemUp mutex,
                 SemDown playersWaitReferee,
                 SemDown mutex, SemUp playing, SetGoalieStat (- 1) PLAYING_1, SaveState, SemUp mutex,
                 SemDown playersWaitEnd],
       ret := 1\<rparr>"
  have five: "replicate 5 ARRIVING = [ARRIVING, ARRIVING, ARRIVING, ARRIVING, ARRIVING]"
    by (simp add: eval_nat_numeral)
  have ga: "goalie_arrive (- 1) (world_of fresh_region) = ?a"
    by (simp add: goalie_arrive_def setGoalieStat_def adjacent_store_def five eval_nat_numeral)
  have gc: "goalieConstituteTeam small_config (- 1) 1 ?a = ?c"
    by (simp add: goalieConstituteTeam_def setGoalieStat_def goalieStatIs_def adjacent_store_def
        adjacent_load_def eval_nat_numeral)
  have gw: "goalie_waitReferee (- 1) 1 ?c = ?r"
    by (simp add: goalie_waitReferee_def setGoalieStat_def adjacent_store_def eval_nat_numeral)
  have gp: "goalie_playUntilEnd (- 1) 1 ?r = ?e"
    by (simp add: goalie_playUntilEnd_def setGoalieStat_def adjacent_store_def eval_nat_numeral)
  have gl: "goalie_life small_config (- 1) 1 ?a = ?e"
    by (simp add: goalie_life_def gc gw gp)
  have g: "goalie_main small_config 4 (- 1, []) True True 1 (world_of fresh_region) =
      (Ended EXIT_SUCCESS, ?e)"
    by (simp add: n goalie_main_def ga gl Let_def)
  show ?thesis
    using n p g by simp
qed

text \<open>At this input neither part of the test of the main program holds; the player has
  made its down of mutex and no up, and the goalie has written an entry of the players.\<close>

theorem negative_id_accepted_witness:
  "\<not> (snd (- 1 :: int, '''') \<noteq> [] \<or> id_of_long (fst (- 1 :: int, '''')) \<ge> NUMPLAYERS small_config) \<and>
   fst (player_main small_config 4 (- 1, []) True True 1 (world_of fresh_region)) = Crashed \<and>
   trace (snd (player_main small_config 4 (- 1, []) True True 1 (world_of fresh_region))) =
     [SemDown mutex] \<and>
   fst (goalie_main small_config 4 (- 1, []) True True 1 (world_of fresh_region)) =
     Ended EXIT_SUCCESS \<and>
   playerStat (st (shm (snd (goalie_main small_config 4 (- 1, []) True True 1
                               (world_of fresh_region))))) =
     [ARRIVING, ARRIVING, ARRIVING, ARRIVING, PLAYING_1]"
  using negative_id_accepted by simp

section \<open>The frame of waitReferee and playUntilEnd (C10)\<close>

text \<open>
  C10, as stated, holds for every actor id. The main programs let the id -1 through, and
  the four operations store at index \<open>id\<close> with no test. With the state array of the
  goalies right after that of the players, waitReferee and playUntilEnd of the goalie
  with id -1 write the entry of the last player: in a region where both teams play and
  player 4 has just arrived, its entry becomes WAITING_START_1, then PLAYING_2. The player
  with id -1 is killed at the store, inside the critical region, and makes none of its
  waits.
\<close>

theorem stray_id_writes_other_entry:
  "playerStat (st full_region) = [PLAYING_1, PLAYING_1, PLAYING_2, PLAYING_2, ARRIVING] \<and>
   halted (goalie_waitReferee (- 1) 1 (world_of full_region)) = None \<and>
   playerStat (st (shm (goalie_waitReferee (- 1) 1 (world_of full_region)))) =
     [PLAYING_1, PLAYING_1, PLAYING_2, PLAYING_2, WAITING_START_1] \<and>
   halted (goalie_playUntilEnd (- 1) 2 (world_of full_region)) = None \<and>
   playerStat (st (shm (goalie_playUntilEnd (- 1) 2 (world_of full_region)))) =
     [PLAYING_1, PLAYING_1, PLAYING_2, PLAYING_2, PLAYING_2] \<and>
   player_waitReferee (- 1) 1 (world_of full_region) =
     (world_of full_region)\<lparr>trace := [SemDown mutex], halted := Some Killed\<rparr> \<and>
   player_playUntilEnd (- 1) 2 (world_of full_region) =
     (world_of full_region)\<lparr>trace := [SemDown mutex], halted := Some Killed\<rparr>"
proof -
  let ?k = "(world_of full_region)\<lparr>trace := [SemDown mutex], halted := Some Killed\<rparr>"
  have h: "halted ?k \<noteq> None"
    by simp
  have gw: "goalie_waitReferee (- 1) 1 (world_of full_region) =
      (world_of full_region)
        \<lparr>shm := full_region\<lparr>st := (st full_region)
                 \<lparr>playerStat := [PLAYING_1, PLAYING_1, PLAYING_2, PLAYING_2, WAITING_START_1]\<rparr>\<rparr>,
         trace := [SemDown mutex, SetGoalieStat (- 1) WAITING_START_1, SaveState, SemUp mutex,
                   SemDown playersWaitReferee]\<rparr>"
    by (simp add: goalie_waitReferee_def setGoalieStat_def adjacent_store_def eval_nat_numeral)
  have gp: "goalie_playUntilEnd (- 1) 2 (world_of full_region) =
      (world_of full_region)
        \<lparr>shm := full_region\<lparr>st := (st full_region)
                 \<lparr>playerStat := [PLAYING_1, PLAYING_1, PLAYING_2, PLAYING_2, PLAYING_2]\<rparr>\<rparr>,
         trace := [SemDown mutex, SemUp playing, SetGoalieStat (- 1) PLAYING_2, SaveState,
                   SemUp mutex, SemDown playersWaitEnd]\<rparr>"
    by (simp add: goalie_playUntilEnd_def setGoalieStat_def adjacent_store_def eval_nat_numeral)
  have pw: "player_waitReferee (- 1) 1 (world_of full_region) = ?k"
    by (simp add: player_waitReferee_def setPlayerStat_def adjacent_store_def stop_here [OF h])
  have pp: "player_playUntilEnd (- 1) 2 (world_of full_region) = ?k"
    by (simp add: player_playUntilEnd_def setPlayerStat_def adjacent_store_def stop_here [OF h])
  show ?thesis
    unfolding gw gp pw pp by simp
qed

text \<open>
  C10, amended. For every slot inside the state array and every value of \<open>team\<close>,
  waitReferee and playUntilEnd of the player and of the goalie leave the five counters
  (playersArrived, playersFree, goaliesArrived, goaliesFree, teamId), the state array of
  the other kind and every other slot of their own state array as they found them. When
  \<open>team\<close> is neither 1 nor 2 they leave the whole shared region as it was, and still make
  their semaphore operations: waitReferee its wait on playersWaitReferee, playUntilEnd its
  up of playing and its wait on playersWaitEnd.
\<close>

theorem referee_frame:
  assumes "ok w" "player_slot i w" "goalie_slot j w"
  shows "frame_player i (shm w) (shm (player_waitReferee i team w)) \<and>
         frame_player i (shm w) (shm (player_playUntilEnd i team w)) \<and>
         frame_goalie j (shm w) (shm (goalie_waitReferee j team w)) \<and>
         frame_goalie j (shm w) (shm (goalie_playUntilEnd j team w)) \<and>
         (team \<noteq> 1 \<and> team \<noteq> 2 \<longrightarrow>
            shm (player_waitReferee i team w) = shm w \<and>
            shm (player_playUntilEnd i team w) = shm w \<and>
            shm (goalie_waitReferee j team w) = shm w \<and>
            shm (goalie_playUntilEnd j team w) = shm w \<and>
            events_of (player_waitReferee i team) w =
              [SemDown mutex, SaveState, SemUp mutex, SemDown playersWaitReferee] \<and>
            events_of (player_playUntilEnd i team) w =
              [SemDown mutex, SemUp playing, SaveState, SemUp mutex, SemDown playersWaitEnd] \<and>
            events_of (goalie_waitReferee j team) w =
              [SemDown mutex, SaveState, SemUp mutex, SemDown playersWaitReferee] \<and>
            events_of (goalie_playUntilEnd j team) w =
              [SemDown mutex, SemUp playing, SaveState, SemUp mutex, SemDown playersWaitEnd])"
  using assms referee_frames referee_shm_other referee_events_other by simp

text \<open>C10 on player 0 and goalie 0 with team 2, and with the team value 3.\<close>

theorem referee_frame_witness:
  "ok (world_of full_region) \<and> player_slot 0 (world_of full_region) \<and>
   goalie_slot 0 (world_of full_region) \<and>
   frame_player 0 full_region (shm (player_waitReferee 0 2 (world_of full_region))) \<and>
   frame_goalie 0 full_region (shm (goalie_playUntilEnd 0 2 (world_of full_region))) \<and>
   shm (player_playUntilEnd 0 3 (world_of full_region)) = full_region \<and>
   events_of (goalie_waitReferee 0 3) (world_of full_region) =
     [SemDown mutex, SaveState, SemUp mutex, SemDown playersWaitReferee]"
  using referee_frame [of "world_of full_region" 0 0 2] referee_frame [of "world_of full_region" 0 0 3]
  by simp

end
